theory Spec2Isabelle
  imports Main "HOL-Library.Word"
begin

section \<open>Fee market keeper: base fee and block gas wanted (x/feemarket/keeper/eip1559.go)\<close>

text \<open>
  The two keeper methods \<^verbatim>\<open>CalculateBlockGasWanted\<close> and \<^verbatim>\<open>CalculateBaseFee\<close> are
  embedded as HOL functions over an explicit context. Go's \<^verbatim>\<open>uint64\<close>, \<^verbatim>\<open>int64\<close> and
  \<^verbatim>\<open>uint32\<close> are words of that width; \<^verbatim>\<open>sdkmath.Int\<close> is an \<open>int\<close>; a non-nil
  \<^verbatim>\<open>sdkmath.LegacyDec\<close> is the \<open>int\<close> held by its \<^verbatim>\<open>big.Int\<close>, the value scaled by
  \<open>10 ^ 18\<close>; the nil \<^verbatim>\<open>LegacyDec{}\<close> is \<open>None\<close>. A Go panic is the left summand of the
  result.
\<close>

subsection \<open>Machine integers\<close>

type_synonym uint64 = "64 word"
type_synonym int64 = "64 word"
type_synonym uint32 = "32 word"

text \<open>An \<^verbatim>\<open>int64\<close> is read in two's complement (\<open>sint\<close>), a \<^verbatim>\<open>uint64\<close> unsigned (\<open>uint\<close>).\<close>

subsection \<open>Panics and errors\<close>

text \<open>
  The panics of \<^verbatim>\<open>cosmossdk.io/math\<close> that the two methods can reach:
  \<^verbatim>\<open>"Int overflow"\<close> of the decimal operations, \<^verbatim>\<open>"Division by zero"\<close> of
  \<^verbatim>\<open>Int.Quo\<close> and of \<^verbatim>\<open>big.Int.Quo\<close>, and the out-of-bound panics of
  \<^verbatim>\<open>NewIntFromBigInt\<close> and \<^verbatim>\<open>Int.Uint64\<close>.
\<close>

datatype panic = IntOverflow | DivisionByZero | OutOfBound

text \<open>
  The three errors \<^verbatim>\<open>CalculateBlockGasWanted\<close> builds: the nil block gas meter
  (\<^verbatim>\<open>errors.New\<close>), and the two integer overflows by type conversion
  (\<^verbatim>\<open>fmt.Errorf\<close>, carrying the offending value).
\<close>

datatype error =
    BlockGasMeterNil
  | GasWantedOverflow int
  | GasUsedOverflow int

fun isArithmeticOverflow :: "error \<Rightarrow> bool" where
  "isArithmeticOverflow BlockGasMeterNil = False"
| "isArithmeticOverflow (GasWantedOverflow v) = True"
| "isArithmeticOverflow (GasUsedOverflow v) = True"

definition andThen :: "panic + 'a \<Rightarrow> ('a \<Rightarrow> panic + 'b) \<Rightarrow> panic + 'b" where
  "andThen r f = (case r of Inl p \<Rightarrow> Inl p | Inr v \<Rightarrow> f v)"

subsection \<open>sdkmath.Int and sdkmath.LegacyDec\<close>

text \<open>\<^verbatim>\<open>big.Int.Quo\<close>: the quotient truncated towards zero.\<close>

definition bigQuo :: "int \<Rightarrow> int \<Rightarrow> int" where
  "bigQuo a b = sgn a * sgn b * (\<bar>a\<bar> div \<bar>b\<bar>)"

definition precisionReuse :: int where
  "precisionReuse = 10 ^ 18"

definition fivePrecision :: int where
  "fivePrecision = 5 * 10 ^ 17"

text \<open>
  \<^verbatim>\<open>MaxBitLen = 256\<close>; \<^verbatim>\<open>maxDecBitLen = MaxBitLen + decimalTruncateBits = 256 + 59\<close>.
  The bit-length test is the one of the library up to version 1.3; later versions compare
  the magnitude with \<open>2 ^ 256 * 10 ^ 18\<close>, slightly above \<open>2 ^ 315\<close>. Every overflowing
  input used below exceeds both limits, and every bound assumed below is inside both.
\<close>

definition MaxBitLen :: nat where
  "MaxBitLen = 256"

definition maxDecBitLen :: nat where
  "maxDecBitLen = 315"

text \<open>\<^verbatim>\<open>x.BitLen() > n\<close> is the negation of \<open>bitLenAtMost n x\<close>.\<close>

definition bitLenAtMost :: "nat \<Rightarrow> int \<Rightarrow> bool" where
  "bitLenAtMost n x = (\<bar>x\<bar> < 2 ^ n)"

definition IsInt64 :: "int \<Rightarrow> bool" where
  "IsInt64 i = (- (2 ^ 63) \<le> i \<and> i < 2 ^ 63)"

definition IsUint64 :: "int \<Rightarrow> bool" where
  "IsUint64 i = (0 \<le> i \<and> i < 2 ^ 64)"

text \<open>\<^verbatim>\<open>Int.Quo\<close> panics on a zero divisor.\<close>

definition Int_Quo :: "int \<Rightarrow> int \<Rightarrow> panic + int" where
  "Int_Quo i i2 = (if i2 = 0 then Inl DivisionByZero else Inr (bigQuo i i2))"

text \<open>\<^verbatim>\<open>Int.Uint64\<close> panics unless the value is a \<^verbatim>\<open>uint64\<close>.\<close>

definition Int_Uint64 :: "int \<Rightarrow> panic + uint64" where
  "Int_Uint64 i = (if IsUint64 i then Inr (word_of_int i) else Inl OutOfBound)"

definition NewIntFromBigInt :: "int \<Rightarrow> panic + int" where
  "NewIntFromBigInt i = (if bitLenAtMost MaxBitLen i then Inr i else Inl OutOfBound)"

definition LegacyNewDec :: "int \<Rightarrow> int" where
  "LegacyNewDec i = i * precisionReuse"

definition LegacyOneDec :: int where
  "LegacyOneDec = precisionReuse"

definition LegacyZeroDec :: int where
  "LegacyZeroDec = 0"

text \<open>
  \<^verbatim>\<open>chopPrecisionAndRound\<close>: divide by \<open>10 ^ 18\<close> with banker's rounding; a negative
  argument is negated, chopped and negated back.
\<close>

definition chopNonNegative :: "int \<Rightarrow> int" where
  "chopNonNegative d =
     (let quo = d div precisionReuse; rem = d mod precisionReuse
      in if rem = 0 then quo
         else if rem < fivePrecision then quo
         else if fivePrecision < rem then quo + 1
         else if even quo then quo
         else quo + 1)"

definition chopPrecisionAndRound :: "int \<Rightarrow> int" where
  "chopPrecisionAndRound d = (if d < 0 then - chopNonNegative (- d) else chopNonNegative d)"

text \<open>
  \<^verbatim>\<open>Mul\<close> rounds the product and panics when the rounded value needs more than
  \<^verbatim>\<open>maxDecBitLen\<close> bits; \<^verbatim>\<open>MulInt\<close>, \<^verbatim>\<open>Add\<close> and \<^verbatim>\<open>Sub\<close> panic likewise on their
  result; \<^verbatim>\<open>QuoInt\<close> divides with \<^verbatim>\<open>big.Int.Quo\<close>, which panics on a zero divisor.
\<close>

definition LegacyDec_Mul :: "int \<Rightarrow> int \<Rightarrow> panic + int" where
  "LegacyDec_Mul d d2 =
     (let chopped = chopPrecisionAndRound (d * d2)
      in if bitLenAtMost maxDecBitLen chopped then Inr chopped else Inl IntOverflow)"

definition LegacyDec_MulInt :: "int \<Rightarrow> int \<Rightarrow> panic + int" where
  "LegacyDec_MulInt d i =
     (if bitLenAtMost maxDecBitLen (d * i) then Inr (d * i) else Inl IntOverflow)"

definition LegacyDec_QuoInt :: "int \<Rightarrow> int \<Rightarrow> panic + int" where
  "LegacyDec_QuoInt d i = (if i = 0 then Inl DivisionByZero else Inr (bigQuo d i))"

definition LegacyDec_Add :: "int \<Rightarrow> int \<Rightarrow> panic + int" where
  "LegacyDec_Add d d2 =
     (if bitLenAtMost maxDecBitLen (d + d2) then Inr (d + d2) else Inl IntOverflow)"

definition LegacyDec_Sub :: "int \<Rightarrow> int \<Rightarrow> panic + int" where
  "LegacyDec_Sub d d2 =
     (if bitLenAtMost maxDecBitLen (d - d2) then Inr (d - d2) else Inl IntOverflow)"

definition LegacyMaxDec :: "int \<Rightarrow> int \<Rightarrow> int" where
  "LegacyMaxDec d1 d2 = (if d1 < d2 then d2 else d1)"

text \<open>\<^verbatim>\<open>LegacyDec.TruncateInt\<close>: the integer part, truncated towards zero.\<close>

definition TruncateInt :: "int \<Rightarrow> panic + int" where
  "TruncateInt d = NewIntFromBigInt (bigQuo d precisionReuse)"

subsection \<open>Parameters, gas meter and context\<close>

text \<open>
  Modelled from the spec: the \<^verbatim>\<open>Params\<close> type of \<^verbatim>\<open>x/feemarket/types\<close> is not among the
  sources. Its fields follow section 3 of the specification: \<^verbatim>\<open>BaseFee\<close> may be nil,
  \<^verbatim>\<open>MinGasPrice\<close> and \<^verbatim>\<open>MinGasMultiplier\<close> are decimals, the two divisors are the unsigned
  32-bit integers that the keeper converts with \<^verbatim>\<open>uint64(...)\<close>.
\<close>

record Params =
  NoBaseFee :: bool
  BaseFee :: "int option"
  MinGasPrice :: int
  MinGasMultiplier :: int
  ElasticityMultiplier :: uint32
  BaseFeeChangeDenominator :: uint32
  EnableHeight :: int64

text \<open>
  Modelled from the spec: \<^verbatim>\<open>Params.IsBaseFeeEnabled\<close> is not among the sources. Section 4.2:
  the fee market is disabled when \<^verbatim>\<open>noBaseFee\<close> is true or the block height is below
  \<^verbatim>\<open>enableHeight\<close>.
\<close>

definition IsBaseFeeEnabled :: "Params \<Rightarrow> int64 \<Rightarrow> bool" where
  "IsBaseFeeEnabled p height = (\<not> NoBaseFee p \<and> \<not> sint height < sint (EnableHeight p))"

text \<open>The basic gas meter of the store: a limit and the gas consumed so far.\<close>

record GasMeter =
  meterLimit :: uint64
  meterConsumed :: uint64

definition GasConsumedToLimit :: "GasMeter \<Rightarrow> uint64" where
  "GasConsumedToLimit g = (if meterLimit g < meterConsumed g then meterLimit g else meterConsumed g)"

datatype event = BlockGasEvent int64 uint64

text \<open>
  What the keeper reads and writes through \<^verbatim>\<open>sdk.Context\<close>: the parameters, the block
  height, the consensus block parameters (\<open>None\<close> when \<^verbatim>\<open>consParams.Block\<close> is nil, else
  \<^verbatim>\<open>MaxGas\<close>), the block gas meter (\<open>None\<close> when nil), the transient gas wanted, the
  stored block gas wanted and the emitted events. The logger and the telemetry gauge are
  outside this state.
\<close>

record Context =
  params :: Params
  BlockHeight :: int64
  ConsensusMaxGas :: "int64 option"
  BlockGasMeter :: "GasMeter option"
  TransientGasWanted :: uint64
  BlockGasWanted :: uint64
  Events :: "event list"

definition SetBlockGasWanted :: "Context \<Rightarrow> uint64 \<Rightarrow> Context" where
  "SetBlockGasWanted ctx gas = ctx\<lparr>BlockGasWanted := gas\<rparr>"

definition EmitEvent :: "Context \<Rightarrow> event \<Rightarrow> Context" where
  "EmitEvent ctx e = ctx\<lparr>Events := Events ctx @ [e]\<rparr>"

subsection \<open>CalculateBlockGasWanted\<close>

text \<open>
  The result is the context after the call with Go's pair \<^verbatim>\<open>(uint64, error)\<close>; the error
  is \<open>None\<close> for \<^verbatim>\<open>nil\<close>.
\<close>

definition CalculateBlockGasWanted :: "Context \<Rightarrow> panic + (Context \<times> uint64 \<times> error option)" where
  "CalculateBlockGasWanted ctx =
     (case BlockGasMeter ctx of
        None \<Rightarrow> Inr (ctx, 0, Some BlockGasMeterNil)
      | Some meter \<Rightarrow>
          (let gasWanted = uint (TransientGasWanted ctx);
               gasUsed = uint (GasConsumedToLimit meter)
           in if \<not> IsInt64 gasWanted then Inr (ctx, 0, Some (GasWantedOverflow gasWanted))
              else if \<not> IsInt64 gasUsed then Inr (ctx, 0, Some (GasUsedOverflow gasUsed))
              else
                (let minGasMultiplier = MinGasMultiplier (params ctx)
                 in andThen (LegacyDec_Mul (LegacyNewDec gasWanted) minGasMultiplier)
                      (\<lambda>limitedGasWanted.
                    andThen (TruncateInt (LegacyMaxDec limitedGasWanted (LegacyNewDec gasUsed)))
                      (\<lambda>truncated.
                    andThen (Int_Uint64 truncated)
                      (\<lambda>updatedGasWanted.
                         Inr (EmitEvent (SetBlockGasWanted ctx updatedGasWanted)
                                (BlockGasEvent (BlockHeight ctx) updatedGasWanted),
                              updatedGasWanted, None)))))))"

subsection \<open>CalculateBaseFee\<close>

text \<open>
  The gas limit of lines 48 to 53: the maximum \<^verbatim>\<open>uint64\<close>, replaced by \<^verbatim>\<open>MaxGas\<close> when the
  block parameters are present and \<^verbatim>\<open>MaxGas > -1\<close>.
\<close>

definition gasLimit :: "Context \<Rightarrow> int" where
  "gasLimit ctx =
     (case ConsensusMaxGas ctx of
        None \<Rightarrow> 2 ^ 64 - 1
      | Some maxGas \<Rightarrow> if - 1 < sint maxGas then sint maxGas else 2 ^ 64 - 1)"

text \<open>
  Lines 75 to 87: the branch taken when the parent block wanted more gas than its target.
  The subtraction is the one of \<^verbatim>\<open>uint64\<close>.
\<close>

definition increaseBaseFee :: "int \<Rightarrow> uint64 \<Rightarrow> uint64 \<Rightarrow> int \<Rightarrow> int \<Rightarrow> panic + int" where
  "increaseBaseFee parentBaseFee parentGasUsed parentGasTarget parentGasTargetInt
       baseFeeChangeDenominator =
     (let gasUsedDelta = uint (parentGasUsed - parentGasTarget)
      in andThen (LegacyDec_MulInt parentBaseFee gasUsedDelta) (\<lambda>x.
         andThen (LegacyDec_QuoInt x parentGasTargetInt) (\<lambda>y.
         andThen (LegacyDec_QuoInt y baseFeeChangeDenominator) (\<lambda>q.
           LegacyDec_Add parentBaseFee (LegacyMaxDec q LegacyOneDec)))))"

text \<open>
  Lines 89 to 98: the branch taken when the parent block wanted less gas than its target.
\<close>

definition decreaseBaseFee :: "int \<Rightarrow> uint64 \<Rightarrow> uint64 \<Rightarrow> int \<Rightarrow> int \<Rightarrow> int \<Rightarrow> panic + int" where
  "decreaseBaseFee parentBaseFee parentGasUsed parentGasTarget parentGasTargetInt
       baseFeeChangeDenominator minGasPrice =
     (let gasUsedDelta = uint (parentGasTarget - parentGasUsed)
      in andThen (LegacyDec_MulInt parentBaseFee gasUsedDelta) (\<lambda>x.
         andThen (LegacyDec_QuoInt x parentGasTargetInt) (\<lambda>y.
         andThen (LegacyDec_QuoInt y baseFeeChangeDenominator) (\<lambda>baseFeeDelta.
         andThen (LegacyDec_Sub parentBaseFee baseFeeDelta) (\<lambda>lowered.
           Inr (LegacyMaxDec lowered minGasPrice))))))"

text \<open>
  The result is the context after the call (the reconciliation writes the store) and the
  returned \<^verbatim>\<open>LegacyDec\<close>, \<open>None\<close> for the nil decimal.
\<close>

definition CalculateBaseFee :: "Context \<Rightarrow> panic + (Context \<times> int option)" where
  "CalculateBaseFee ctx =
     (let p = params ctx
      in if \<not> IsBaseFeeEnabled p (BlockHeight ctx) then Inr (ctx, None)
         else if BlockHeight ctx = EnableHeight p then Inr (ctx, BaseFee p)
         else
           (case BaseFee p of
              None \<Rightarrow> Inr (ctx, None)
            | Some parentBaseFee \<Rightarrow>
                andThen (CalculateBlockGasWanted ctx) (\<lambda>(ctx', parentGasUsed, err).
                  if err \<noteq> None then Inr (ctx', None)
                  else
                    andThen (Int_Quo (gasLimit ctx) (uint (ElasticityMultiplier p)))
                      (\<lambda>parentGasTargetInt.
                    if \<not> IsUint64 parentGasTargetInt then Inr (ctx', None)
                    else
                      (let parentGasTarget = (word_of_int parentGasTargetInt :: uint64);
                           baseFeeChangeDenominator = uint (BaseFeeChangeDenominator p)
                       in if parentGasUsed = parentGasTarget then Inr (ctx', Some parentBaseFee)
                          else if parentGasTargetInt = 0 then Inr (ctx', Some LegacyZeroDec)
                          else if parentGasTarget < parentGasUsed then
                            andThen (increaseBaseFee parentBaseFee parentGasUsed parentGasTarget
                                       parentGasTargetInt baseFeeChangeDenominator)
                              (\<lambda>fee. Inr (ctx', Some fee))
                          else
                            andThen (decreaseBaseFee parentBaseFee parentGasUsed parentGasTarget
                                       parentGasTargetInt baseFeeChangeDenominator (MinGasPrice p))
                              (\<lambda>fee. Inr (ctx', Some fee)))))))"

subsection \<open>Example contexts\<close>

text \<open>
  The contexts of the keeper's unit tests: the default parameters after one empty block
  (base fee 875000000, multiplier 0.5, elasticity 2, denominator 8), height 1, a block gas
  meter with limit 1000000000, and the given maximum block gas, transient gas wanted and
  consumed gas.
\<close>

definition exampleParams :: Params where
  "exampleParams =
     \<lparr>NoBaseFee = False, BaseFee = Some (875000000 * 10 ^ 18), MinGasPrice = 0,
      MinGasMultiplier = 5 * 10 ^ 17, ElasticityMultiplier = 2, BaseFeeChangeDenominator = 8,
      EnableHeight = 0\<rparr>"

definition exampleContext :: "int64 \<Rightarrow> uint64 \<Rightarrow> uint64 \<Rightarrow> Context" where
  "exampleContext maxGas wanted used =
     \<lparr>params = exampleParams, BlockHeight = 1, ConsensusMaxGas = Some maxGas,
      BlockGasMeter = Some \<lparr>meterLimit = 1000000000, meterConsumed = used\<rparr>,
      TransientGasWanted = wanted, BlockGasWanted = 0, Events = []\<rparr>"

text \<open>The example context after a successful reconciliation that yields \<open>g\<close>.\<close>

definition exampleAfter :: "int64 \<Rightarrow> uint64 \<Rightarrow> uint64 \<Rightarrow> uint64 \<Rightarrow> Context" where
  "exampleAfter maxGas wanted used g =
     (exampleContext maxGas wanted used)\<lparr>BlockGasWanted := g, Events := [BlockGasEvent 1 g]\<rparr>"

text \<open>No block gas meter, and a transient gas wanted of the maximum \<^verbatim>\<open>uint64\<close>.\<close>

definition noMeterContext :: Context where
  "noMeterContext = (exampleContext 100 18446744073709551615 0)\<lparr>BlockGasMeter := None\<rparr>"

text \<open>The congested example with a stored base fee of \<open>2 ^ 314\<close>, inside the 315 bits of a decimal.\<close>

definition overflowFeeContext :: Context where
  "overflowFeeContext = (exampleContext 100 100 100)\<lparr>params := exampleParams\<lparr>BaseFee := Some (2 ^ 314)\<rparr>\<rparr>"

text \<open>The example with no stored base fee.\<close>

definition absentFeeContext :: Context where
  "absentFeeContext = (exampleContext 100 100 100)\<lparr>params := exampleParams\<lparr>BaseFee := None\<rparr>\<rparr>"

text \<open>
  The congested example with 75 wanted and the slack example with 25 wanted, each with a
  stored base fee of \<open>2 ^ 314\<close>.
\<close>

definition congestedOverflowContext :: Context where
  "congestedOverflowContext =
     (exampleContext 100 75 75)\<lparr>params := exampleParams\<lparr>BaseFee := Some (2 ^ 314)\<rparr>\<rparr>"

definition slackOverflowContext :: Context where
  "slackOverflowContext =
     (exampleContext 100 25 25)\<lparr>params := exampleParams\<lparr>BaseFee := Some (2 ^ 314)\<rparr>\<rparr>"

text \<open>The congested example with a stored base fee of zero.\<close>

definition zeroFeeContext :: Context where
  "zeroFeeContext = (exampleContext 100 100 100)\<lparr>params := exampleParams\<lparr>BaseFee := Some 0\<rparr>\<rparr>"

text \<open>
  The slack example with a minimum gas price of 1500000000, above the lowered fee, as in
  the keeper's unit test.
\<close>

definition highMinPriceContext :: Context where
  "highMinPriceContext =
     (exampleContext 100 25 25)\<lparr>params := exampleParams\<lparr>MinGasPrice := 1500000000 * 10 ^ 18\<rparr>\<rparr>"

text \<open>A context after a successful reconciliation that yields \<open>g\<close>.\<close>

definition written :: "Context \<Rightarrow> uint64 \<Rightarrow> Context" where
  "written ctx g = ctx\<lparr>BlockGasWanted := g, Events := Events ctx @ [BlockGasEvent (BlockHeight ctx) g]\<rparr>"

section \<open>Auxiliary lemmas\<close>

subsection \<open>Arithmetic of the decimal library\<close>

lemma andThen_Inr [simp]: "andThen (Inr v) f = f v"
  by (simp add: andThen_def)

lemma andThen_Inl [simp]: "andThen (Inl p) f = Inl p"
  by (simp add: andThen_def)

lemma bigQuo_nonneg: "0 \<le> a \<Longrightarrow> 0 < b \<Longrightarrow> bigQuo a b = a div b"
  by (cases "a = 0") (simp_all add: bigQuo_def)

lemma div_le_self_int: "0 \<le> (n::int) \<Longrightarrow> 0 \<le> k \<Longrightarrow> n div k \<le> n"
proof (cases "k = 0")
  case True
  assume "0 \<le> n"
  with True show ?thesis by simp
next
  case False
  assume n: "0 \<le> n" and k: "0 \<le> k"
  with False have "1 \<le> k" by simp
  then have "n div k \<le> n div 1"
    using n by (intro zdiv_mono2) simp_all
  then show ?thesis by simp
qed

lemma bigQuo_abs_le: "\<bar>bigQuo a b\<bar> \<le> \<bar>a\<bar>"
proof -
  have nn: "0 \<le> \<bar>a\<bar> div \<bar>b\<bar>"
    by (simp add: pos_imp_zdiv_nonneg_iff div_int_pos_iff)
  have "\<bar>bigQuo a b\<bar> = \<bar>sgn a\<bar> * \<bar>sgn b\<bar> * (\<bar>a\<bar> div \<bar>b\<bar>)"
    using nn by (simp add: bigQuo_def abs_mult)
  also have "\<dots> \<le> \<bar>a\<bar> div \<bar>b\<bar>"
    using nn by (cases "a = 0"; cases "b = 0") (simp_all add: abs_sgn_eq)
  also have "\<dots> \<le> \<bar>a\<bar>"
    by (rule div_le_self_int) simp_all
  finally show ?thesis .
qed

lemma bigQuo_pos_divisor: "0 < b \<Longrightarrow> bigQuo a b = (if 0 \<le> a then a div b else - ((- a) div b))"
  by (cases "a = 0") (auto simp add: bigQuo_def sgn_if)

lemma bigQuo_mono:
  assumes "0 < b" "a \<le> a'"
  shows "bigQuo a b \<le> bigQuo a' b"
proof -
  consider "0 \<le> a" | "a < 0" "0 \<le> a'" | "a' < 0" by linarith
  then show ?thesis
  proof cases
    case 1
    with assms show ?thesis
      by (simp add: bigQuo_pos_divisor zdiv_mono1)
  next
    case 2
    have "0 \<le> (- a) div b" using 2 assms by (simp add: pos_imp_zdiv_nonneg_iff)
    moreover have "0 \<le> a' div b" using 2 assms by (simp add: pos_imp_zdiv_nonneg_iff)
    ultimately show ?thesis using 2 assms by (simp add: bigQuo_pos_divisor)
  next
    case 3
    then have "(- a') div b \<le> (- a) div b"
      using assms by (intro zdiv_mono1) simp_all
    with 3 assms show ?thesis by (simp add: bigQuo_pos_divisor)
  qed
qed

lemma bigQuo_nonpos: "a \<le> 0 \<Longrightarrow> 0 < b \<Longrightarrow> bigQuo a b \<le> 0"
  using bigQuo_mono [of b a 0] by (simp add: bigQuo_def)

lemma chopNonNegative_multiple: "chopNonNegative (k * precisionReuse) = k"
  by (simp add: chopNonNegative_def precisionReuse_def)

lemma chop_multiple: "chopPrecisionAndRound (k * precisionReuse) = k"
proof (cases "k * precisionReuse < 0")
  case True
  have "chopNonNegative ((- k) * precisionReuse) = - k"
    by (rule chopNonNegative_multiple)
  with True show ?thesis by (simp add: chopPrecisionAndRound_def)
next
  case False
  then show ?thesis by (simp add: chopPrecisionAndRound_def chopNonNegative_multiple)
qed

lemma precisionReuse_pos: "0 < precisionReuse"
  by (simp add: precisionReuse_def)

lemma max_div_pos: "0 < (p::int) \<Longrightarrow> max a b div p = max (a div p) (b div p)"
proof (cases "a \<le> b")
  case True
  assume "0 < p"
  with True have "a div p \<le> b div p" by (intro zdiv_mono1)
  with True show ?thesis by (simp add: max_def)
next
  case False
  assume "0 < p"
  with False have "b div p \<le> a div p" by (intro zdiv_mono1) simp_all
  with False show ?thesis by (simp add: max_def)
qed

lemma max_div_precision:
  assumes "0 \<le> u"
  shows "bigQuo (LegacyMaxDec a (LegacyNewDec u)) precisionReuse = max (a div precisionReuse) u"
proof -
  have eq: "LegacyMaxDec a (LegacyNewDec u) = max a (u * precisionReuse)"
    by (simp add: LegacyMaxDec_def LegacyNewDec_def max_def)
  have "0 \<le> u * precisionReuse"
    using assms precisionReuse_pos by simp
  then have "0 \<le> max a (u * precisionReuse)"
    by (simp add: le_max_iff_disj)
  then have "bigQuo (max a (u * precisionReuse)) precisionReuse
      = max a (u * precisionReuse) div precisionReuse"
    using precisionReuse_pos by (rule bigQuo_nonneg)
  also have "\<dots> = max (a div precisionReuse) (u * precisionReuse div precisionReuse)"
    using precisionReuse_pos by (rule max_div_pos)
  also have "\<dots> = max (a div precisionReuse) u"
    using precisionReuse_pos by simp
  finally show ?thesis by (simp only: eq)
qed

subsection \<open>The reconciliation\<close>

lemma IsInt64_uint: "IsInt64 (uint (x :: uint64)) = (uint x < 2 ^ 63)"
proof -
  have "- (2 ^ 63) \<le> (0::int)" by simp
  also have "0 \<le> uint x" by simp
  finally have "- (2 ^ 63) \<le> uint x" .
  then show ?thesis by (simp add: IsInt64_def)
qed

lemma uint_target: "0 \<le> t \<Longrightarrow> t < 2 ^ 64 \<Longrightarrow> uint (word_of_int t :: uint64) = t"
  by (simp add: uint_word_of_int_eq take_bit_int_eq_self)

lemma limitedGasWanted_chop:
  "chopPrecisionAndRound (LegacyNewDec w * m) = w * m"
proof -
  have "LegacyNewDec w * m = (w * m) * precisionReuse"
    by (simp add: LegacyNewDec_def mult_ac)
  then show ?thesis by (simp only: chop_multiple)
qed

lemma limitedGasWanted_value:
  assumes "0 \<le> w" "w < 2 ^ 63" "0 \<le> m" "m \<le> precisionReuse"
  shows "LegacyDec_Mul (LegacyNewDec w) m = Inr (w * m)"
proof -
  have "LegacyNewDec w * m = (w * m) * precisionReuse"
    by (simp add: LegacyNewDec_def mult_ac)
  then have chop: "chopPrecisionAndRound (LegacyNewDec w * m) = w * m"
    by (simp only: chop_multiple)
  have "w * m \<le> w * precisionReuse"
    using assms by (intro mult_left_mono) simp_all
  also have "\<dots> < 2 ^ 63 * precisionReuse"
    using assms precisionReuse_pos by (intro mult_strict_right_mono) simp_all
  also have "\<dots> < 2 ^ 315"
    by (simp add: precisionReuse_def)
  finally have "w * m < 2 ^ 315" .
  moreover have "0 \<le> w * m" using assms by simp
  ultimately have "bitLenAtMost maxDecBitLen (w * m)"
    by (simp add: bitLenAtMost_def maxDecBitLen_def)
  with chop show ?thesis by (simp add: LegacyDec_Mul_def)
qed

lemma limited_div_bound:
  assumes "0 \<le> w" "0 \<le> m" "m \<le> precisionReuse"
  shows "0 \<le> w * m div precisionReuse" "w * m div precisionReuse \<le> w"
proof -
  show "0 \<le> w * m div precisionReuse"
    using assms precisionReuse_pos by (simp add: pos_imp_zdiv_nonneg_iff)
  have "w * m \<le> w * precisionReuse"
    using assms by (intro mult_left_mono) simp_all
  then have "w * m div precisionReuse \<le> w * precisionReuse div precisionReuse"
    using precisionReuse_pos by (intro zdiv_mono1) simp_all
  then show "w * m div precisionReuse \<le> w"
    using precisionReuse_pos by simp
qed

lemma CalculateBlockGasWanted_ok:
  assumes meter: "BlockGasMeter ctx = Some meter"
    and w: "uint (TransientGasWanted ctx) < 2 ^ 63"
    and u: "uint (GasConsumedToLimit meter) < 2 ^ 63"
    and m: "0 \<le> MinGasMultiplier (params ctx)" "MinGasMultiplier (params ctx) \<le> precisionReuse"
  defines "v \<equiv> max (uint (TransientGasWanted ctx) * MinGasMultiplier (params ctx) div precisionReuse)
                     (uint (GasConsumedToLimit meter))"
  shows "CalculateBlockGasWanted ctx =
           Inr (EmitEvent (SetBlockGasWanted ctx (word_of_int v))
                  (BlockGasEvent (BlockHeight ctx) (word_of_int v)), word_of_int v, None)"
    and "0 \<le> v" and "v < 2 ^ 63"
proof -
  let ?w = "uint (TransientGasWanted ctx)"
  let ?u = "uint (GasConsumedToLimit meter)"
  let ?m = "MinGasMultiplier (params ctx)"
  have w0: "0 \<le> ?w" and u0: "0 \<le> ?u" by simp_all
  have lim: "0 \<le> ?w * ?m div precisionReuse" "?w * ?m div precisionReuse \<le> ?w"
    using limited_div_bound [OF w0 m] by simp_all
  show v0: "0 \<le> v" using u0 by (simp add: v_def le_max_iff_disj)
  show v63: "v < 2 ^ 63" using lim w u by (simp add: v_def)
  have i1: "IsInt64 ?w" using w by (simp add: IsInt64_uint)
  have i2: "IsInt64 ?u" using u by (simp add: IsInt64_uint)
  have mul: "LegacyDec_Mul (LegacyNewDec ?w) ?m = Inr (?w * ?m)"
    using w0 w m by (rule limitedGasWanted_value)
  have "0 \<le> ?w * ?m" using w0 m by simp
  then have q: "bigQuo (LegacyMaxDec (?w * ?m) (LegacyNewDec ?u)) precisionReuse = v"
    using u0 by (simp add: max_div_precision v_def)
  have "\<bar>v\<bar> < 2 ^ 256"
  proof -
    have "(2::int) ^ 63 < 2 ^ 256" by simp
    with v0 v63 show ?thesis by simp
  qed
  then have tr: "TruncateInt (LegacyMaxDec (?w * ?m) (LegacyNewDec ?u)) = Inr v"
    by (simp add: TruncateInt_def NewIntFromBigInt_def q bitLenAtMost_def MaxBitLen_def)
  have "(2::int) ^ 63 < 2 ^ 64" by simp
  with v0 v63 have "IsUint64 v" by (simp add: IsUint64_def)
  then have u64: "Int_Uint64 v = Inr (word_of_int v)"
    by (simp add: Int_Uint64_def)
  show "CalculateBlockGasWanted ctx =
           Inr (EmitEvent (SetBlockGasWanted ctx (word_of_int v))
                  (BlockGasEvent (BlockHeight ctx) (word_of_int v)), word_of_int v, None)"
    unfolding CalculateBlockGasWanted_def
    using meter i1 i2 by (simp add: mul tr u64)
qed

lemma CalculateBlockGasWanted_returned:
  assumes meter: "BlockGasMeter ctx = Some meter"
    and w: "uint (TransientGasWanted ctx) < 2 ^ 63"
    and u: "uint (GasConsumedToLimit meter) < 2 ^ 63"
    and run: "CalculateBlockGasWanted ctx = Inr (ctx', gasWanted, err)"
  shows "err = None"
    and "ctx' = EmitEvent (SetBlockGasWanted ctx gasWanted) (BlockGasEvent (BlockHeight ctx) gasWanted)"
    and "uint gasWanted =
           max (uint (TransientGasWanted ctx) * MinGasMultiplier (params ctx) div precisionReuse)
               (uint (GasConsumedToLimit meter))"
proof -
  let ?w = "uint (TransientGasWanted ctx)"
  let ?u = "uint (GasConsumedToLimit meter)"
  let ?m = "MinGasMultiplier (params ctx)"
  let ?v = "max (?w * ?m div precisionReuse) ?u"
  have i: "IsInt64 ?w" "IsInt64 ?u" using w u by (simp_all add: IsInt64_uint)
  have q: "bigQuo (LegacyMaxDec (?w * ?m) (LegacyNewDec ?u)) precisionReuse = ?v"
    by (rule max_div_precision) simp
  from run have chain:
    "andThen (LegacyDec_Mul (LegacyNewDec ?w) ?m) (\<lambda>limitedGasWanted.
       andThen (TruncateInt (LegacyMaxDec limitedGasWanted (LegacyNewDec ?u))) (\<lambda>truncated.
       andThen (Int_Uint64 truncated) (\<lambda>updatedGasWanted.
         Inr (EmitEvent (SetBlockGasWanted ctx updatedGasWanted)
                (BlockGasEvent (BlockHeight ctx) updatedGasWanted), updatedGasWanted, None))))
     = Inr (ctx', gasWanted, err)"
    unfolding CalculateBlockGasWanted_def Let_def using meter i by simp
  then have mul: "LegacyDec_Mul (LegacyNewDec ?w) ?m = Inr (?w * ?m)"
    by (cases "bitLenAtMost maxDecBitLen (?w * ?m)")
       (simp_all add: LegacyDec_Mul_def limitedGasWanted_chop)
  from chain have chain1:
    "andThen (TruncateInt (LegacyMaxDec (?w * ?m) (LegacyNewDec ?u))) (\<lambda>truncated.
       andThen (Int_Uint64 truncated) (\<lambda>updatedGasWanted.
         Inr (EmitEvent (SetBlockGasWanted ctx updatedGasWanted)
                (BlockGasEvent (BlockHeight ctx) updatedGasWanted), updatedGasWanted, None)))
     = Inr (ctx', gasWanted, err)"
    by (simp add: mul)
  then have tr: "TruncateInt (LegacyMaxDec (?w * ?m) (LegacyNewDec ?u)) = Inr ?v"
    by (cases "bitLenAtMost MaxBitLen ?v") (simp_all add: TruncateInt_def NewIntFromBigInt_def q)
  from chain1 have chain2:
    "andThen (Int_Uint64 ?v) (\<lambda>updatedGasWanted.
         Inr (EmitEvent (SetBlockGasWanted ctx updatedGasWanted)
                (BlockGasEvent (BlockHeight ctx) updatedGasWanted), updatedGasWanted, None))
     = Inr (ctx', gasWanted, err)"
    by (simp add: tr)
  then have fits: "IsUint64 ?v"
    by (cases "IsUint64 ?v") (simp_all add: Int_Uint64_def)
  from chain2 fits have res: "ctx' = EmitEvent (SetBlockGasWanted ctx (word_of_int ?v))
        (BlockGasEvent (BlockHeight ctx) (word_of_int ?v))" "gasWanted = word_of_int ?v" "err = None"
    by (auto simp add: Int_Uint64_def)
  from res show "err = None" by simp
  from res show "ctx' = EmitEvent (SetBlockGasWanted ctx gasWanted)
      (BlockGasEvent (BlockHeight ctx) gasWanted)" by simp
  from fits have "uint (word_of_int ?v :: uint64) = ?v"
    by (intro uint_target) (simp_all add: IsUint64_def)
  with res show "uint gasWanted = ?v" by simp
qed

lemma not_IsInt64_uint: "(\<not> IsInt64 (uint (x :: uint64))) = (2 ^ 63 \<le> uint x)"
  by (simp add: IsInt64_uint not_less)

lemma CalculateBlockGasWanted_nil:
  "BlockGasMeter ctx = None \<Longrightarrow> CalculateBlockGasWanted ctx = Inr (ctx, 0, Some BlockGasMeterNil)"
  by (simp add: CalculateBlockGasWanted_def)

lemma CalculateBlockGasWanted_overflow:
  assumes "BlockGasMeter ctx = Some meter"
    and "2 ^ 63 \<le> uint (TransientGasWanted ctx) \<or> 2 ^ 63 \<le> uint (GasConsumedToLimit meter)"
  shows "CalculateBlockGasWanted ctx =
           Inr (ctx, 0, Some (if 2 ^ 63 \<le> uint (TransientGasWanted ctx)
                              then GasWantedOverflow (uint (TransientGasWanted ctx))
                              else GasUsedOverflow (uint (GasConsumedToLimit meter))))"
  using assms by (auto simp add: CalculateBlockGasWanted_def Let_def not_IsInt64_uint IsInt64_uint)

lemma CalculateBlockGasWanted_total:
  assumes "0 \<le> MinGasMultiplier (params ctx)" "MinGasMultiplier (params ctx) \<le> precisionReuse"
  shows "\<exists>ctx' gasWanted err. CalculateBlockGasWanted ctx = Inr (ctx', gasWanted, err)"
proof (cases "BlockGasMeter ctx")
  case None
  then show ?thesis by (simp add: CalculateBlockGasWanted_nil)
next
  case (Some meter)
  show ?thesis
  proof (cases "2 ^ 63 \<le> uint (TransientGasWanted ctx) \<or> 2 ^ 63 \<le> uint (GasConsumedToLimit meter)")
    case True
    then show ?thesis using CalculateBlockGasWanted_overflow [OF Some] by simp
  next
    case False
    then have "uint (TransientGasWanted ctx) < 2 ^ 63" "uint (GasConsumedToLimit meter) < 2 ^ 63"
      by simp_all
    from CalculateBlockGasWanted_ok(1) [OF Some this assms] show ?thesis by simp
  qed
qed

subsection \<open>The parent gas target\<close>

lemma gasLimit_range: "0 \<le> gasLimit ctx" "gasLimit ctx < 2 ^ 64"
proof -
  have big: "(0::int) \<le> 2 ^ 64 - 1" "(2::int) ^ 64 - 1 < 2 ^ 64" by simp_all
  have s: "sint m < 2 ^ 64" for m :: int64
  proof -
    have "sint m < 2 ^ (LENGTH(64) - 1)" by (rule sint_lt)
    also have "\<dots> < (2::int) ^ 64" by simp
    finally show ?thesis .
  qed
  show "0 \<le> gasLimit ctx"
    using big by (auto simp add: gasLimit_def split: option.splits)
  show "gasLimit ctx < 2 ^ 64"
    using big s by (auto simp add: gasLimit_def split: option.splits)
qed

lemma uint_uint32_pos:
  assumes "(e :: uint32) \<noteq> 0"
  shows "0 < uint e"
proof -
  have "uint e \<noteq> 0"
    using assms by (simp add: word_uint_eq_iff)
  with uint_ge_0 [of e] show ?thesis by linarith
qed

lemma parentGasTarget_quo:
  assumes "Int_Quo (gasLimit ctx) (uint (e :: uint32)) = Inr t"
  shows "e \<noteq> 0" "t = gasLimit ctx div uint e" "0 \<le> t" "t < 2 ^ 64" "IsUint64 t"
proof -
  from assms show e: "e \<noteq> 0"
    by (auto simp add: Int_Quo_def split: if_splits)
  then have pos: "0 < uint e" by (rule uint_uint32_pos)
  from assms have "t = bigQuo (gasLimit ctx) (uint e)"
    by (auto simp add: Int_Quo_def split: if_splits)
  then show t: "t = gasLimit ctx div uint e"
    using gasLimit_range(1) pos by (simp add: bigQuo_nonneg)
  show t0: "0 \<le> t"
    using gasLimit_range(1) pos by (simp add: t pos_imp_zdiv_nonneg_iff)
  have "t \<le> gasLimit ctx"
    unfolding t using gasLimit_range(1) pos by (intro div_le_self_int) simp_all
  then show t64: "t < 2 ^ 64"
    using gasLimit_range(2) [of ctx] by linarith
  from t0 t64 show "IsUint64 t" by (simp add: IsUint64_def)
qed

lemma parentGasTarget_exists:
  assumes "(e :: uint32) \<noteq> 0"
  shows "Int_Quo (gasLimit ctx) (uint e) = Inr (gasLimit ctx div uint e)"
proof -
  have pos: "0 < uint e" using assms by (rule uint_uint32_pos)
  then show ?thesis
    using gasLimit_range(1) by (simp add: Int_Quo_def bigQuo_nonneg)
qed

lemma target_eq_iff:
  assumes "0 \<le> t" "t < 2 ^ 64"
  shows "(g = (word_of_int t :: uint64)) = (uint g = t)"
  using uint_target [OF assms] by (auto simp add: word_uint_eq_iff)

lemma target_less_iff:
  assumes "0 \<le> t" "t < 2 ^ 64"
  shows "((word_of_int t :: uint64) < g) = (t < uint g)"
  using uint_target [OF assms] by (simp add: word_less_def)

subsection \<open>The steady state of CalculateBaseFee\<close>

lemma CalculateBaseFee_steady:
  assumes on: "\<not> NoBaseFee (params ctx)"
    and height: "sint (EnableHeight (params ctx)) < sint (BlockHeight ctx)"
    and fee: "BaseFee (params ctx) = Some b"
    and wanted: "CalculateBlockGasWanted ctx = Inr (ctx', g, None)"
    and target: "Int_Quo (gasLimit ctx) (uint (ElasticityMultiplier (params ctx))) = Inr t"
  shows "CalculateBaseFee ctx =
     (if uint g = t then Inr (ctx', Some b)
      else if t = 0 then Inr (ctx', Some LegacyZeroDec)
      else if t < uint g then
        andThen (increaseBaseFee b g (word_of_int t) t (uint (BaseFeeChangeDenominator (params ctx))))
          (\<lambda>fee. Inr (ctx', Some fee))
      else
        andThen (decreaseBaseFee b g (word_of_int t) t (uint (BaseFeeChangeDenominator (params ctx)))
                   (MinGasPrice (params ctx)))
          (\<lambda>fee. Inr (ctx', Some fee)))"
proof -
  note t = parentGasTarget_quo [OF target]
  have enabled: "IsBaseFeeEnabled (params ctx) (BlockHeight ctx)"
    using on height by (simp add: IsBaseFeeEnabled_def)
  have neq: "BlockHeight ctx \<noteq> EnableHeight (params ctx)"
    using height by auto
  show ?thesis
    unfolding CalculateBaseFee_def Let_def
    using enabled neq t(5)
    by (simp add: fee wanted target target_eq_iff [OF t(3,4)] target_less_iff [OF t(3,4)])
qed

lemma CalculateBaseFee_absent_parent:
  assumes "BaseFee (params ctx) = None"
  shows "CalculateBaseFee ctx = Inr (ctx, None)"
  using assms by (simp add: CalculateBaseFee_def Let_def)

lemma CalculateBaseFee_wanted_error:
  assumes on: "\<not> NoBaseFee (params ctx)"
    and height: "sint (EnableHeight (params ctx)) < sint (BlockHeight ctx)"
    and wanted: "CalculateBlockGasWanted ctx = Inr (ctx', gasWanted, Some err)"
  shows "CalculateBaseFee ctx = Inr (ctx', None)"
proof -
  have enabled: "IsBaseFeeEnabled (params ctx) (BlockHeight ctx)"
    using on height by (simp add: IsBaseFeeEnabled_def)
  have neq: "BlockHeight ctx \<noteq> EnableHeight (params ctx)"
    using height by auto
  have same: "ctx' = ctx"
    using wanted by (auto simp add: CalculateBlockGasWanted_def Let_def andThen_def
      split: option.splits if_splits sum.splits)
  show ?thesis
    unfolding CalculateBaseFee_def Let_def
    using enabled neq same by (simp add: wanted split: option.splits)
qed

lemma zero_elasticity_panics:
  assumes on: "\<not> NoBaseFee (params ctx)"
    and height: "sint (EnableHeight (params ctx)) < sint (BlockHeight ctx)"
    and fee: "BaseFee (params ctx) = Some parentBaseFee"
    and wanted: "CalculateBlockGasWanted ctx = Inr (ctx', gasWanted, None)"
    and zero: "ElasticityMultiplier (params ctx) = 0"
  shows "CalculateBaseFee ctx = Inl DivisionByZero"
proof -
  have enabled: "IsBaseFeeEnabled (params ctx) (BlockHeight ctx)"
    using on height by (simp add: IsBaseFeeEnabled_def)
  have neq: "BlockHeight ctx \<noteq> EnableHeight (params ctx)"
    using height by auto
  show ?thesis
    unfolding CalculateBaseFee_def Let_def
    using enabled neq by (simp add: fee wanted zero Int_Quo_def)
qed

subsection \<open>The two adjustment branches\<close>

lemma LegacyMaxDec_max: "LegacyMaxDec a b = max a b"
  by (simp add: LegacyMaxDec_def max_def)

lemma product_in_range:
  assumes b: "\<bar>b :: int\<bar> < 2 ^ 250" and k: "0 \<le> k" "k < 2 ^ 64"
  shows "\<bar>b * k\<bar> < 2 ^ 314"
proof (cases "k = 0")
  case True
  then show ?thesis by simp
next
  case False
  with k have kpos: "0 < k" by simp
  have "\<bar>b * k\<bar> = \<bar>b\<bar> * k"
    using k by (simp add: abs_mult)
  also have "\<dots> < 2 ^ 250 * k"
    using b kpos by (intro mult_strict_right_mono) simp_all
  also have "\<dots> \<le> 2 ^ 250 * 2 ^ 64"
    using k by (intro mult_left_mono) simp_all
  also have "\<dots> = (2::int) ^ 314"
    by simp
  finally show ?thesis .
qed

lemma quotient_in_range:
  assumes "\<bar>x :: int\<bar> < 2 ^ 314"
  shows "\<bar>bigQuo (bigQuo x t) d\<bar> < 2 ^ 314"
proof -
  have "\<bar>bigQuo (bigQuo x t) d\<bar> \<le> \<bar>bigQuo x t\<bar>" by (rule bigQuo_abs_le)
  also have "\<dots> \<le> \<bar>x\<bar>" by (rule bigQuo_abs_le)
  finally show ?thesis using assms by linarith
qed

lemma sum_in_range:
  assumes "\<bar>b :: int\<bar> < 2 ^ 250" "\<bar>q :: int\<bar> < 2 ^ 314"
  shows "bitLenAtMost maxDecBitLen (b + q)" "bitLenAtMost maxDecBitLen (b - q)"
proof -
  have le: "\<bar>b + q\<bar> \<le> \<bar>b\<bar> + \<bar>q\<bar>" "\<bar>b - q\<bar> \<le> \<bar>b\<bar> + \<bar>q\<bar>" by linarith+
  have "\<bar>b\<bar> + \<bar>q\<bar> < 2 ^ 250 + 2 ^ 314" using assms by linarith
  also have "\<dots> < (2::int) ^ 315" by simp
  finally have "\<bar>b\<bar> + \<bar>q\<bar> < 2 ^ 315" .
  with le show "bitLenAtMost maxDecBitLen (b + q)" "bitLenAtMost maxDecBitLen (b - q)"
    by (simp_all add: bitLenAtMost_def maxDecBitLen_def)
qed

lemma MulInt_in_range:
  assumes "\<bar>b * k\<bar> < 2 ^ 314"
  shows "LegacyDec_MulInt b k = Inr (b * k)"
proof -
  have "(2::int) ^ 314 < 2 ^ 315" by simp
  with assms have "\<bar>b * k\<bar> < 2 ^ 315" by linarith
  then show ?thesis by (simp add: LegacyDec_MulInt_def bitLenAtMost_def maxDecBitLen_def)
qed

lemma uint_delta_up:
  assumes "0 \<le> t" "t < uint (g :: uint64)"
  shows "uint (g - word_of_int t) = uint g - t"
proof -
  have "t < 2 ^ 64" using assms(2) uint_lt2p [of g] by simp
  then have u: "uint (word_of_int t :: uint64) = t" using assms(1) by (simp add: uint_target)
  then have "uint (word_of_int t :: uint64) \<le> uint g" using assms by simp
  then have "uint (g - word_of_int t) = uint g - uint (word_of_int t :: uint64)"
    by (simp only: uint_sub_lem)
  then show ?thesis by (simp only: u)
qed

lemma uint_delta_down:
  assumes "uint (g :: uint64) < t" "t < 2 ^ 64"
  shows "uint (word_of_int t - g) = t - uint g"
proof -
  have "0 \<le> t" using assms(1) uint_ge_0 [of g] by linarith
  then have u: "uint (word_of_int t :: uint64) = t" using assms(2) by (simp add: uint_target)
  then have "uint g \<le> uint (word_of_int t :: uint64)" using assms by simp
  then have "uint (word_of_int t - g) = uint (word_of_int t :: uint64) - uint g"
    by (simp only: uint_sub_lem)
  then show ?thesis by (simp only: u)
qed

lemma one_in_range: "\<bar>LegacyOneDec\<bar> < 2 ^ 314"
  by (simp add: LegacyOneDec_def precisionReuse_def)

lemma increaseBaseFee_value:
  assumes t: "0 < t" "t < uint g" and d: "0 < d" and b: "\<bar>b\<bar> < 2 ^ 250"
  shows "increaseBaseFee b g (word_of_int t) t d =
           Inr (b + max (bigQuo (bigQuo (b * (uint g - t)) t) d) LegacyOneDec)"
proof -
  let ?k = "uint g - t"
  let ?q = "bigQuo (bigQuo (b * ?k) t) d"
  have delta: "uint (g - word_of_int t) = ?k"
    using t by (intro uint_delta_up) simp_all
  have k: "0 \<le> ?k" "?k < 2 ^ 64"
    using t uint_lt2p [of g] by simp_all
  have x: "\<bar>b * ?k\<bar> < 2 ^ 314" using b k by (rule product_in_range)
  have mul: "LegacyDec_MulInt b ?k = Inr (b * ?k)"
    using x by (rule MulInt_in_range)
  have q: "\<bar>?q\<bar> < 2 ^ 314" using x by (rule quotient_in_range)
  have "\<bar>max ?q LegacyOneDec\<bar> < 2 ^ 314"
    using q one_in_range by (simp add: max_def)
  then have add: "LegacyDec_Add b (max ?q LegacyOneDec) = Inr (b + max ?q LegacyOneDec)"
    using sum_in_range(1) [OF b] by (simp add: LegacyDec_Add_def)
  show ?thesis
    unfolding increaseBaseFee_def Let_def delta
    using t d by (simp add: mul LegacyDec_QuoInt_def LegacyMaxDec_max add)
qed

lemma decreaseBaseFee_value:
  assumes t: "uint g < t" "t < 2 ^ 64" and d: "0 < d" and b: "\<bar>b\<bar> < 2 ^ 250"
  shows "decreaseBaseFee b g (word_of_int t) t d minGasPrice =
           Inr (max (b - bigQuo (bigQuo (b * (t - uint g)) t) d) minGasPrice)"
proof -
  let ?k = "t - uint g"
  let ?q = "bigQuo (bigQuo (b * ?k) t) d"
  have delta: "uint (word_of_int t - g) = ?k"
    using t by (rule uint_delta_down)
  have tpos: "0 < t" using t(1) uint_ge_0 [of g] by linarith
  have k: "0 \<le> ?k" "?k < 2 ^ 64"
    using t uint_ge_0 [of g] by linarith+
  have x: "\<bar>b * ?k\<bar> < 2 ^ 314" using b k by (rule product_in_range)
  have mul: "LegacyDec_MulInt b ?k = Inr (b * ?k)"
    using x by (rule MulInt_in_range)
  have q: "\<bar>?q\<bar> < 2 ^ 314" using x by (rule quotient_in_range)
  have sub: "LegacyDec_Sub b ?q = Inr (b - ?q)"
    using sum_in_range(2) [OF b q] by (simp add: LegacyDec_Sub_def)
  show ?thesis
    unfolding decreaseBaseFee_def Let_def delta
    using tpos d by (simp add: mul LegacyDec_QuoInt_def LegacyMaxDec_max sub)
qed

lemma decreaseBaseFee_Inr:
  assumes run: "decreaseBaseFee b g (word_of_int t) t d minGasPrice = Inr fee"
    and t: "uint g < t" "t < 2 ^ 64"
  shows "fee = max (b - bigQuo (bigQuo (b * (t - uint g)) t) d) minGasPrice"
proof -
  have delta: "uint (word_of_int t - g) = t - uint g"
    using t by (rule uint_delta_down)
  from run show ?thesis
    unfolding decreaseBaseFee_def Let_def delta
    by (auto simp add: LegacyDec_MulInt_def LegacyDec_QuoInt_def LegacyDec_Sub_def LegacyMaxDec_max
        split: if_splits)
qed

lemma andThen_Inr_iff:
  "(andThen r (\<lambda>fee. Inr (c', Some fee)) = Inr (c, result)) = (\<exists>fee. r = Inr fee \<and> c = c' \<and> result = Some fee)"
  by (cases r) (auto simp add: andThen_def)

lemma increaseBaseFee_Inr:
  assumes run: "increaseBaseFee b g (word_of_int t) t d = Inr fee"
    and t: "0 < t" "t < uint g"
  shows "fee = b + max (bigQuo (bigQuo (b * (uint g - t)) t) d) LegacyOneDec" and "d \<noteq> 0"
proof -
  have delta: "uint (g - word_of_int t) = uint g - t"
    using t by (intro uint_delta_up) simp_all
  from run show "d \<noteq> 0"
    unfolding increaseBaseFee_def Let_def delta
    by (auto simp add: LegacyDec_MulInt_def LegacyDec_QuoInt_def split: if_splits)
  from run show "fee = b + max (bigQuo (bigQuo (b * (uint g - t)) t) d) LegacyOneDec"
    unfolding increaseBaseFee_def Let_def delta
    by (auto simp add: LegacyDec_MulInt_def LegacyDec_QuoInt_def LegacyDec_Add_def LegacyMaxDec_max
        split: if_splits)
qed

lemma increase_mono:
  assumes t: "0 < t" and d: "0 < d" and k: "0 \<le> k2" "k2 \<le> k1"
  shows "b + max (bigQuo (bigQuo (b * k2) t) d) LegacyOneDec
       \<le> b + max (bigQuo (bigQuo (b * k1) t) d) LegacyOneDec"
proof (cases "0 \<le> b")
  case True
  then have x: "b * k2 \<le> b * k1" using k by (intro mult_left_mono)
  have y: "bigQuo (b * k2) t \<le> bigQuo (b * k1) t" using t x by (rule bigQuo_mono)
  have "bigQuo (bigQuo (b * k2) t) d \<le> bigQuo (bigQuo (b * k1) t) d"
    using d y by (rule bigQuo_mono)
  then show ?thesis by (simp add: max_def)
next
  case False
  have one: "0 < LegacyOneDec" by (simp add: LegacyOneDec_def precisionReuse_def)
  have neg: "bigQuo (bigQuo (b * k) t) d \<le> 0" if "0 \<le> k" for k
  proof -
    have "b * k \<le> 0" using False that by (simp add: mult_le_0_iff)
    then have "bigQuo (b * k) t \<le> 0" using t by (rule bigQuo_nonpos)
    then show ?thesis using d by (rule bigQuo_nonpos)
  qed
  have "0 \<le> k1" using k by simp
  then have "max (bigQuo (bigQuo (b * k1) t) d) LegacyOneDec = LegacyOneDec"
    using neg [of k1] one by (simp add: max_def)
  moreover have "max (bigQuo (bigQuo (b * k2) t) d) LegacyOneDec = LegacyOneDec"
    using neg [of k2] k one by (simp add: max_def)
  ultimately show ?thesis by simp
qed

lemma CalculateBaseFee_total:
  assumes e: "ElasticityMultiplier (params ctx) \<noteq> 0"
    and d: "BaseFeeChangeDenominator (params ctx) \<noteq> 0"
    and m: "0 \<le> MinGasMultiplier (params ctx)" "MinGasMultiplier (params ctx) \<le> precisionReuse"
    and range: "\<forall>fee. BaseFee (params ctx) = Some fee \<longrightarrow> \<bar>fee\<bar> < 2 ^ 250"
  shows "\<exists>ctx' result. CalculateBaseFee ctx = Inr (ctx', result)"
proof -
  consider (off) "NoBaseFee (params ctx) \<or> sint (BlockHeight ctx) < sint (EnableHeight (params ctx))"
    | (first) "\<not> NoBaseFee (params ctx)" "BlockHeight ctx = EnableHeight (params ctx)"
    | (absent) "BaseFee (params ctx) = None"
    | (steady) b where "\<not> NoBaseFee (params ctx)"
        "sint (EnableHeight (params ctx)) < sint (BlockHeight ctx)" "BaseFee (params ctx) = Some b"
  proof (cases "NoBaseFee (params ctx)")
    case True
    then show ?thesis using that(1) by simp
  next
    case False
    show ?thesis
    proof (rule linorder_cases [of "sint (BlockHeight ctx)" "sint (EnableHeight (params ctx))"])
      assume "sint (BlockHeight ctx) < sint (EnableHeight (params ctx))"
      then show ?thesis using that(1) by simp
    next
      assume "sint (BlockHeight ctx) = sint (EnableHeight (params ctx))"
      then have "BlockHeight ctx = EnableHeight (params ctx)" by (rule signed_word_eqI)
      with False show ?thesis by (rule that(2))
    next
      assume above: "sint (EnableHeight (params ctx)) < sint (BlockHeight ctx)"
      show ?thesis
      proof (cases "BaseFee (params ctx)")
        case None
        then show ?thesis by (rule that(3))
      next
        case (Some b)
        with False above show ?thesis by (rule that(4))
      qed
    qed
  qed
  then show ?thesis
  proof cases
    case off
    then show ?thesis by (auto simp add: CalculateBaseFee_def IsBaseFeeEnabled_def)
  next
    case first
    then show ?thesis by (simp add: CalculateBaseFee_def IsBaseFeeEnabled_def)
  next
    case absent
    then show ?thesis by (simp add: CalculateBaseFee_absent_parent)
  next
    case steady
    from CalculateBlockGasWanted_total [OF m]
    obtain ctx' g err where w: "CalculateBlockGasWanted ctx = Inr (ctx', g, err)" by blast
    show ?thesis
    proof (cases err)
      case (Some x)
      with w steady show ?thesis by (simp add: CalculateBaseFee_wanted_error)
    next
      case None
      let ?t = "gasLimit ctx div uint (ElasticityMultiplier (params ctx))"
      let ?d = "uint (BaseFeeChangeDenominator (params ctx))"
      have target: "Int_Quo (gasLimit ctx) (uint (ElasticityMultiplier (params ctx))) = Inr ?t"
        using e by (rule parentGasTarget_exists)
      note t = parentGasTarget_quo [OF target]
      have dpos: "0 < ?d" using d by (rule uint_uint32_pos)
      have b: "\<bar>b\<bar> < 2 ^ 250" using range steady(3) by simp
      note st = CalculateBaseFee_steady [OF steady(1,2,3) w [unfolded None] target]
      consider "uint g = ?t" | "uint g \<noteq> ?t" "?t = 0" | "0 < ?t" "?t < uint g" | "uint g < ?t"
        using t(3) by linarith
      then show ?thesis
      proof cases
        case 1
        then show ?thesis by (simp add: st)
      next
        case 2
        then show ?thesis by (simp add: st)
      next
        case 3
        then show ?thesis
          using increaseBaseFee_value [OF 3 dpos b] by (simp add: st)
      next
        case 4
        have "0 < ?t" using 4 uint_ge_0 [of g] by linarith
        then show ?thesis
          using 4 decreaseBaseFee_value [OF 4 t(4) dpos b] by (simp add: st)
      qed
    qed
  qed
qed

subsection \<open>Evaluation of the example contexts\<close>

lemmas example_defs = exampleContext_def exampleAfter_def exampleParams_def

lemmas fee_defs = CalculateBaseFee_def IsBaseFeeEnabled_def gasLimit_def Int_Quo_def
  increaseBaseFee_def decreaseBaseFee_def LegacyDec_MulInt_def LegacyDec_QuoInt_def
  LegacyDec_Add_def LegacyDec_Sub_def LegacyOneDec_def LegacyZeroDec_def

lemmas wanted_defs = CalculateBlockGasWanted_def
    GasConsumedToLimit_def IsInt64_def LegacyDec_Mul_def LegacyNewDec_def precisionReuse_def
    chopPrecisionAndRound_def chopNonNegative_def bitLenAtMost_def maxDecBitLen_def MaxBitLen_def
    TruncateInt_def NewIntFromBigInt_def LegacyMaxDec_def bigQuo_def Int_Uint64_def IsUint64_def
    SetBlockGasWanted_def EmitEvent_def fivePrecision_def

lemma example_wanted_100:
  "CalculateBlockGasWanted (exampleContext 100 100 100) = Inr (exampleAfter 100 100 100 100, 100, None)"
  by (simp add: wanted_defs example_defs)

lemma example_wanted_25:
  "CalculateBlockGasWanted (exampleContext 100 25 25) = Inr (exampleAfter 100 25 25 25, 25, None)"
  by (simp add: wanted_defs example_defs)

lemma example_wanted_50:
  "CalculateBlockGasWanted (exampleContext 100 50 50) = Inr (exampleAfter 100 50 50 50, 50, None)"
  by (simp add: wanted_defs example_defs)

lemma example_wanted_75:
  "CalculateBlockGasWanted (exampleContext 100 75 75) = Inr (exampleAfter 100 75 75 75, 75, None)"
  by (simp add: wanted_defs example_defs)

lemma example_wanted_zero_target:
  "CalculateBlockGasWanted (exampleContext 1 0 0) = Inr (exampleAfter 1 0 0 0, 0, None)"
  "CalculateBlockGasWanted (exampleContext 1 0 7) = Inr (exampleAfter 1 0 7 7, 7, None)"
  by (simp_all add: wanted_defs example_defs)

lemma example_steady:
  "\<not> NoBaseFee (params (exampleContext maxGas w u))"
  "sint (EnableHeight (params (exampleContext maxGas w u))) < sint (BlockHeight (exampleContext maxGas w u))"
  "BaseFee (params (exampleContext maxGas w u)) = Some (875000000 * 10 ^ 18)"
  "BaseFeeChangeDenominator (params (exampleContext maxGas w u)) \<noteq> 0"
  "uint (BaseFeeChangeDenominator (params (exampleContext maxGas w u))) = 8"
  "MinGasPrice (params (exampleContext maxGas w u)) = 0"
  by (simp_all add: example_defs)

lemma example_target:
  "Int_Quo (gasLimit (exampleContext 100 w u)) (uint (ElasticityMultiplier (params (exampleContext 100 w u)))) = Inr 50"
  "Int_Quo (gasLimit (exampleContext 1 w u)) (uint (ElasticityMultiplier (params (exampleContext 1 w u)))) = Inr 0"
  by (simp_all add: example_defs gasLimit_def Int_Quo_def bigQuo_def)

lemma example_fee_bound: "\<bar>875000000 * 10 ^ 18 :: int\<bar> < 2 ^ 250"
  by simp

lemma example_congested:
  "(0::int) < 50" "(50::int) < uint (100 :: uint64)"
  by simp_all

lemma example_slack: "uint (25 :: uint64) < 50"
  by simp

lemma example_larger:
  "(50::int) < uint (75 :: uint64)"
  "uint (75 :: uint64) - 50 < uint (100 :: uint64) - 50"
  by simp_all

lemma example_same:
  "params (exampleContext 100 75 75) = params (exampleContext 100 100 100)"
  "gasLimit (exampleContext 100 75 75) = gasLimit (exampleContext 100 100 100)"
  "sint (EnableHeight (params (exampleContext 100 100 100))) < sint (BlockHeight (exampleContext 100 75 75))"
  by (simp_all add: example_defs gasLimit_def)

lemma example_meter:
  "BlockGasMeter (exampleContext maxGas w u) = Some \<lparr>meterLimit = 1000000000, meterConsumed = u\<rparr>"
  "MinGasMultiplier (params (exampleContext maxGas w u)) = 5 * 10 ^ 17"
  "TransientGasWanted (exampleContext maxGas w u) = w"
  by (simp_all add: example_defs)

lemma example_after:
  "EmitEvent (SetBlockGasWanted (exampleContext maxGas w u) g)
     (BlockGasEvent (BlockHeight (exampleContext maxGas w u)) g) = exampleAfter maxGas w u g"
  by (simp add: example_defs EmitEvent_def SetBlockGasWanted_def)

lemma example_increase_value:
  "875000000 * 10 ^ 18 +
     max (bigQuo (bigQuo (875000000 * 10 ^ 18 * (uint (100 :: uint64) - 50)) 50) 8) LegacyOneDec
   = (984375000 * 10 ^ 18 :: int)"
  by (simp add: bigQuo_def LegacyOneDec_def precisionReuse_def)

lemma example_decrease_value:
  "max (875000000 * 10 ^ 18 -
     bigQuo (bigQuo (875000000 * 10 ^ 18 * (50 - uint (25 :: uint64))) 50) 8) 0
   = (820312500 * 10 ^ 18 :: int)"
  by (simp add: bigQuo_def)

lemma written_wanted:
  "CalculateBlockGasWanted congestedOverflowContext = Inr (written congestedOverflowContext 75, 75, None)"
  "CalculateBlockGasWanted slackOverflowContext = Inr (written slackOverflowContext 25, 25, None)"
  "CalculateBlockGasWanted zeroFeeContext = Inr (written zeroFeeContext 100, 100, None)"
  "CalculateBlockGasWanted highMinPriceContext = Inr (written highMinPriceContext 25, 25, None)"
  "CalculateBlockGasWanted (exampleContext 20000000000 20000000002 0)
     = Inr (written (exampleContext 20000000000 20000000002 0) 10000000001, 10000000001, None)"
  by (simp_all add: wanted_defs example_defs written_def congestedOverflowContext_def
      slackOverflowContext_def zeroFeeContext_def highMinPriceContext_def)

lemma written_steady:
  "\<not> NoBaseFee (params congestedOverflowContext)"
  "sint (EnableHeight (params congestedOverflowContext)) < sint (BlockHeight congestedOverflowContext)"
  "BaseFee (params congestedOverflowContext) = Some (2 ^ 314)"
  "\<not> NoBaseFee (params slackOverflowContext)"
  "sint (EnableHeight (params slackOverflowContext)) < sint (BlockHeight slackOverflowContext)"
  "BaseFee (params slackOverflowContext) = Some (2 ^ 314)"
  "\<not> NoBaseFee (params zeroFeeContext)"
  "sint (EnableHeight (params zeroFeeContext)) < sint (BlockHeight zeroFeeContext)"
  "BaseFee (params zeroFeeContext) = Some 0"
  "\<not> NoBaseFee (params highMinPriceContext)"
  "sint (EnableHeight (params highMinPriceContext)) < sint (BlockHeight highMinPriceContext)"
  "BaseFee (params highMinPriceContext) = Some (875000000 * 10 ^ 18)"
  by (simp_all add: example_defs congestedOverflowContext_def
      slackOverflowContext_def zeroFeeContext_def highMinPriceContext_def)

lemma written_target:
  "Int_Quo (gasLimit congestedOverflowContext)
     (uint (ElasticityMultiplier (params congestedOverflowContext))) = Inr 50"
  "Int_Quo (gasLimit slackOverflowContext)
     (uint (ElasticityMultiplier (params slackOverflowContext))) = Inr 50"
  "Int_Quo (gasLimit zeroFeeContext) (uint (ElasticityMultiplier (params zeroFeeContext))) = Inr 50"
  "Int_Quo (gasLimit highMinPriceContext)
     (uint (ElasticityMultiplier (params highMinPriceContext))) = Inr 50"
  "Int_Quo (gasLimit (exampleContext 20000000000 w u))
     (uint (ElasticityMultiplier (params (exampleContext 20000000000 w u)))) = Inr 10000000000"
  by (simp_all add: example_defs gasLimit_def Int_Quo_def bigQuo_def congestedOverflowContext_def
      slackOverflowContext_def zeroFeeContext_def highMinPriceContext_def)

lemma written_params:
  "BaseFeeChangeDenominator (params congestedOverflowContext) = 8"
  "BaseFeeChangeDenominator (params slackOverflowContext) = 8"
  "BaseFeeChangeDenominator (params zeroFeeContext) = 8"
  "BaseFeeChangeDenominator (params highMinPriceContext) = 8"
  "MinGasPrice (params highMinPriceContext) = 1500000000 * 10 ^ 18"
  "MinGasPrice (params slackOverflowContext) = 0"
  by (simp_all add: example_defs congestedOverflowContext_def
      slackOverflowContext_def zeroFeeContext_def highMinPriceContext_def)

lemma written_denominator:
  "BaseFeeChangeDenominator (params zeroFeeContext) \<noteq> 0"
  "uint (BaseFeeChangeDenominator (params zeroFeeContext)) = 8"
  "BaseFeeChangeDenominator (params highMinPriceContext) \<noteq> 0"
  "uint (BaseFeeChangeDenominator (params highMinPriceContext)) = 8"
  by (simp_all add: written_params)

lemma example_floor_congested:
  "(0::int) < 10000000000" "(10000000000::int) < uint (10000000001 :: uint64)"
  "\<bar>0 :: int\<bar> < 2 ^ 250"
  by simp_all

lemma example_floor_value:
  "875000000 * 10 ^ 18 +
     max (bigQuo (bigQuo (875000000 * 10 ^ 18 * (uint (10000000001 :: uint64) - 10000000000))
            10000000000) 8) LegacyOneDec
   = (875000001 * 10 ^ 18 :: int)"
  "0 + max (bigQuo (bigQuo (0 * (uint (100 :: uint64) - 50)) 50) 8) LegacyOneDec = LegacyOneDec"
  by (simp_all add: bigQuo_def LegacyOneDec_def precisionReuse_def)

lemma example_price_floor_value:
  "max (875000000 * 10 ^ 18 -
     bigQuo (bigQuo (875000000 * 10 ^ 18 * (50 - uint (25 :: uint64))) 50) 8) (1500000000 * 10 ^ 18)
   = (1500000000 * 10 ^ 18 :: int)"
  by (simp add: bigQuo_def)

section \<open>The claims\<close>

subsection \<open>C1: a parent gas target of zero\<close>

text \<open>
  Claim C1, as stated, fails. The keeper compares the gas wanted with the target (line 67)
  before it tests the target for zero (line 71). With a maximum block gas of 1 and an
  elasticity of 2 the target is zero; when the gas wanted is zero too, the result is the
  parent base fee (here 875000000), not the zero fee.
\<close>

theorem zero_target_counterexample:
  "\<not> NoBaseFee (params (exampleContext 1 0 0))
   \<and> sint (EnableHeight (params (exampleContext 1 0 0))) < sint (BlockHeight (exampleContext 1 0 0))
   \<and> BaseFee (params (exampleContext 1 0 0)) = Some (875000000 * 10 ^ 18)
   \<and> CalculateBlockGasWanted (exampleContext 1 0 0) = Inr (exampleAfter 1 0 0 0, 0, None)
   \<and> Int_Quo (gasLimit (exampleContext 1 0 0))
        (uint (ElasticityMultiplier (params (exampleContext 1 0 0)))) = Inr 0
   \<and> CalculateBaseFee (exampleContext 1 0 0) = Inr (exampleAfter 1 0 0 0, Some (875000000 * 10 ^ 18))
   \<and> CalculateBaseFee (exampleContext 1 0 0) \<noteq> Inr (exampleAfter 1 0 0 0, Some LegacyZeroDec)"
proof -
  have eq: "uint (0 :: uint64) = 0" by simp
  have "CalculateBaseFee (exampleContext 1 0 0) = Inr (exampleAfter 1 0 0 0, Some (875000000 * 10 ^ 18))"
    using eq
    by (simp add: CalculateBaseFee_steady [OF example_steady(1-3) example_wanted_zero_target(1) example_target(2)])
  then show ?thesis
    using example_steady(1-3) [of 1 0 0] example_wanted_zero_target(1) example_target(2) [of 0 0]
    by (simp add: LegacyZeroDec_def)
qed

text \<open>
  Claim C1, amended. In the steady state with a parent gas target of zero, the result is
  the zero fee whenever the reconciled gas wanted is not zero; when it is zero, the
  equilibrium test comes first and the result is the parent base fee.
\<close>

theorem zero_target_zero_fee:
  assumes "\<not> NoBaseFee (params ctx)"
    and "sint (EnableHeight (params ctx)) < sint (BlockHeight ctx)"
    and "BaseFee (params ctx) = Some parentBaseFee"
    and "CalculateBlockGasWanted ctx = Inr (ctx', gasWanted, None)"
    and "Int_Quo (gasLimit ctx) (uint (ElasticityMultiplier (params ctx))) = Inr 0"
  shows "CalculateBaseFee ctx =
           Inr (ctx', Some (if gasWanted = 0 then parentBaseFee else LegacyZeroDec))"
proof -
  have "(uint gasWanted = 0) = (gasWanted = 0)"
    by (simp add: word_uint_eq_iff)
  then show ?thesis
    by (simp add: CalculateBaseFee_steady [OF assms])
qed

theorem zero_target_zero_fee_witness:
  "CalculateBaseFee (exampleContext 1 0 7) = Inr (exampleAfter 1 0 7 7, Some LegacyZeroDec)"
  using zero_target_zero_fee [OF example_steady(1-3) example_wanted_zero_target(2) example_target(2)]
  by simp

subsection \<open>C2: the smoothed gas wanted\<close>

text \<open>
  Claim C2. With a block gas meter attached and the transient gas wanted and the capped
  consumed gas both below \<open>2 ^ 63\<close>, every result the reconciliation returns carries no
  error, is the truncation of the maximum of the rounded product and the consumed gas,
  and is the value written to the store; the call does return when the multiplier is a
  decimal between 0 and 1. That value is the maximum of the floor of the product and the
  consumed gas.
\<close>

theorem gas_wanted_smoothing:
  assumes "BlockGasMeter ctx = Some meter"
    and "uint (TransientGasWanted ctx) < 2 ^ 63"
    and "uint (GasConsumedToLimit meter) < 2 ^ 63"
  defines "limitedWanted \<equiv>
      chopPrecisionAndRound (LegacyNewDec (uint (TransientGasWanted ctx)) * MinGasMultiplier (params ctx))"
  defines "smoothed \<equiv>
      bigQuo (max limitedWanted (LegacyNewDec (uint (GasConsumedToLimit meter)))) precisionReuse"
  shows "(\<forall>ctx' gasWanted err. CalculateBlockGasWanted ctx = Inr (ctx', gasWanted, err) \<longrightarrow>
            err = None \<and> uint gasWanted = smoothed
            \<and> ctx' = EmitEvent (SetBlockGasWanted ctx gasWanted)
                       (BlockGasEvent (BlockHeight ctx) gasWanted))
       \<and> (0 \<le> MinGasMultiplier (params ctx) \<and> MinGasMultiplier (params ctx) \<le> precisionReuse \<longrightarrow>
            (\<exists>gasWanted. CalculateBlockGasWanted ctx =
               Inr (EmitEvent (SetBlockGasWanted ctx gasWanted)
                      (BlockGasEvent (BlockHeight ctx) gasWanted), gasWanted, None)
             \<and> uint gasWanted = smoothed))
       \<and> smoothed =
            max (uint (TransientGasWanted ctx) * MinGasMultiplier (params ctx) div precisionReuse)
                (uint (GasConsumedToLimit meter))"
proof -
  let ?w = "uint (TransientGasWanted ctx)"
  let ?u = "uint (GasConsumedToLimit meter)"
  let ?m = "MinGasMultiplier (params ctx)"
  let ?v = "max (?w * ?m div precisionReuse) ?u"
  have "bigQuo (LegacyMaxDec (?w * ?m) (LegacyNewDec ?u)) precisionReuse = ?v"
    by (rule max_div_precision) simp
  then have val: "smoothed = ?v"
    by (simp only: smoothed_def limitedWanted_def limitedGasWanted_chop LegacyMaxDec_max)
  have returned: "err = None \<and> uint gasWanted = smoothed
      \<and> ctx' = EmitEvent (SetBlockGasWanted ctx gasWanted) (BlockGasEvent (BlockHeight ctx) gasWanted)"
    if "CalculateBlockGasWanted ctx = Inr (ctx', gasWanted, err)" for ctx' gasWanted err
    using CalculateBlockGasWanted_returned [OF assms(1-3) that] by (simp only: val simp_thms)
  have returns: "\<exists>gasWanted. CalculateBlockGasWanted ctx =
               Inr (EmitEvent (SetBlockGasWanted ctx gasWanted)
                      (BlockGasEvent (BlockHeight ctx) gasWanted), gasWanted, None)
             \<and> uint gasWanted = smoothed"
    if m: "0 \<le> ?m" "?m \<le> precisionReuse"
  proof -
    note ok = CalculateBlockGasWanted_ok [OF assms(1-3) m]
    from CalculateBlockGasWanted_returned(3) [OF assms(1-3) ok(1)] ok(1)
    show ?thesis by (simp only: val) blast
  qed
  from returned returns val show ?thesis by blast
qed

text \<open>
  The three examples of the specification: 5000000 wanted and 1000000 consumed give
  2500000; 2000000 wanted (smoothed to 1000000) and 3000000 consumed give 3000000;
  2000000 wanted and consumed give 2000000.
\<close>

theorem gas_wanted_smoothing_witness:
  "CalculateBlockGasWanted (exampleContext 100 5000000 1000000)
     = Inr (exampleAfter 100 5000000 1000000 2500000, 2500000, None)
   \<and> CalculateBlockGasWanted (exampleContext 100 2000000 3000000)
     = Inr (exampleAfter 100 2000000 3000000 3000000, 3000000, None)
   \<and> CalculateBlockGasWanted (exampleContext 100 2000000 2000000)
     = Inr (exampleAfter 100 2000000 2000000 2000000, 2000000, None)"
proof -
  have run: "CalculateBlockGasWanted (exampleContext 100 w u) = Inr (exampleAfter 100 w u g, g, None)"
    if w: "uint w < 2 ^ 63"
      and u: "uint (GasConsumedToLimit \<lparr>meterLimit = 1000000000, meterConsumed = u\<rparr>) < 2 ^ 63"
      and g: "max (uint w * (5 * 10 ^ 17) div precisionReuse)
                (uint (GasConsumedToLimit \<lparr>meterLimit = 1000000000, meterConsumed = u\<rparr>)) = uint g"
    for w u g :: uint64
  proof -
    let ?ctx = "exampleContext 100 w u"
    have w': "uint (TransientGasWanted ?ctx) < 2 ^ 63"
      using w by (simp add: example_meter)
    have m: "0 \<le> MinGasMultiplier (params ?ctx) \<and> MinGasMultiplier (params ?ctx) \<le> precisionReuse"
      by (simp add: example_meter precisionReuse_def)
    note claim = gas_wanted_smoothing [OF example_meter(1) w' u]
    from claim [THEN conjunct2, THEN conjunct1] m
    obtain h where h: "CalculateBlockGasWanted ?ctx =
          Inr (EmitEvent (SetBlockGasWanted ?ctx h) (BlockGasEvent (BlockHeight ?ctx) h), h, None)"
        "uint h = bigQuo (max (chopPrecisionAndRound
            (LegacyNewDec (uint (TransientGasWanted ?ctx)) * MinGasMultiplier (params ?ctx)))
          (LegacyNewDec (uint (GasConsumedToLimit \<lparr>meterLimit = 1000000000, meterConsumed = u\<rparr>))))
          precisionReuse"
      by blast
    from h(2) claim [THEN conjunct2, THEN conjunct2] g have "uint h = uint g"
      by (simp only: example_meter)
    then have "h = g" by (simp add: word_uint_eq_iff)
    with h(1) show ?thesis by (simp only: example_after)
  qed
  have "CalculateBlockGasWanted (exampleContext 100 5000000 1000000)
     = Inr (exampleAfter 100 5000000 1000000 2500000, 2500000, None)"
    by (rule run) (simp_all add: GasConsumedToLimit_def precisionReuse_def)
  moreover have "CalculateBlockGasWanted (exampleContext 100 2000000 3000000)
     = Inr (exampleAfter 100 2000000 3000000 3000000, 3000000, None)"
    by (rule run) (simp_all add: GasConsumedToLimit_def precisionReuse_def)
  moreover have "CalculateBlockGasWanted (exampleContext 100 2000000 2000000)
     = Inr (exampleAfter 100 2000000 2000000 2000000, 2000000, None)"
    by (rule run) (simp_all add: GasConsumedToLimit_def precisionReuse_def)
  ultimately show ?thesis by (intro conjI)
qed

subsection \<open>C3: congestion\<close>

text \<open>
  Claim C3, as stated, fails: the call does not return for every congested steady-state
  invocation. With a stored base fee of \<open>2 ^ 314\<close> (a valid decimal), a target of 50 and
  75 gas wanted, every condition of the claim holds and the product of line 79 leaves the
  range of the decimal, so \<^verbatim>\<open>MulInt\<close> panics.
\<close>

theorem congestion_overflow_counterexample:
  "\<not> NoBaseFee (params congestedOverflowContext)
   \<and> sint (EnableHeight (params congestedOverflowContext)) < sint (BlockHeight congestedOverflowContext)
   \<and> BaseFee (params congestedOverflowContext) = Some (2 ^ 314)
   \<and> bitLenAtMost maxDecBitLen (2 ^ 314)
   \<and> BaseFeeChangeDenominator (params congestedOverflowContext) = 8
   \<and> CalculateBlockGasWanted congestedOverflowContext
       = Inr (written congestedOverflowContext 75, 75, None)
   \<and> Int_Quo (gasLimit congestedOverflowContext)
        (uint (ElasticityMultiplier (params congestedOverflowContext))) = Inr 50
   \<and> (0 :: int) < 50 \<and> 50 < uint (75 :: uint64)
   \<and> CalculateBaseFee congestedOverflowContext = Inl IntOverflow"
proof -
  have "CalculateBaseFee congestedOverflowContext = Inl IntOverflow"
    by (simp add: CalculateBaseFee_steady [OF written_steady(1-3) written_wanted(1) written_target(1)]
        written_params increaseBaseFee_def LegacyDec_MulInt_def bitLenAtMost_def maxDecBitLen_def)
  then show ?thesis
    using written_steady(1-3) written_wanted(1) written_target(1)
    by (simp add: written_params bitLenAtMost_def maxDecBitLen_def)
qed

text \<open>
  Claim C3, amended. In the steady state with the parent base fee present, a congested
  block (gas wanted above a positive target) gets the parent base fee plus the larger of
  the damped delta and one whole unit (\<^verbatim>\<open>LegacyOneDec\<close>): every result the call returns
  is that value, and the call does return it when the change denominator is not zero and
  the parent base fee is within the range where the decimal products stay representable
  (the scaled integer of magnitude below \<open>2 ^ 250\<close>). When the delta is zero, or anything
  up to one unit, the increase is exactly one unit; the new fee is strictly above the old.
\<close>

theorem congestion_raises_base_fee:
  assumes "\<not> NoBaseFee (params ctx)"
    and "sint (EnableHeight (params ctx)) < sint (BlockHeight ctx)"
    and "BaseFee (params ctx) = Some parentBaseFee"
    and "CalculateBlockGasWanted ctx = Inr (ctx', parentGasUsed, None)"
    and "Int_Quo (gasLimit ctx) (uint (ElasticityMultiplier (params ctx))) = Inr parentGasTarget"
    and congested: "0 < parentGasTarget" "parentGasTarget < uint parentGasUsed"
  defines "delta \<equiv>
    bigQuo (bigQuo (parentBaseFee * (uint parentGasUsed - parentGasTarget)) parentGasTarget)
      (uint (BaseFeeChangeDenominator (params ctx)))"
  shows "(\<forall>c result. CalculateBaseFee ctx = Inr (c, result) \<longrightarrow>
            c = ctx' \<and> result = Some (parentBaseFee + max delta LegacyOneDec))
       \<and> (BaseFeeChangeDenominator (params ctx) \<noteq> 0 \<and> \<bar>parentBaseFee\<bar> < 2 ^ 250 \<longrightarrow>
            CalculateBaseFee ctx = Inr (ctx', Some (parentBaseFee + max delta LegacyOneDec)))
       \<and> (delta \<le> LegacyOneDec \<longrightarrow>
            parentBaseFee + max delta LegacyOneDec = parentBaseFee + LegacyOneDec)
       \<and> parentBaseFee < parentBaseFee + max delta LegacyOneDec"
proof -
  let ?d = "uint (BaseFeeChangeDenominator (params ctx))"
  let ?inc = "increaseBaseFee parentBaseFee parentGasUsed (word_of_int parentGasTarget)
      parentGasTarget ?d"
  have st: "CalculateBaseFee ctx = andThen ?inc (\<lambda>fee. Inr (ctx', Some fee))"
    using congested by (simp add: CalculateBaseFee_steady [OF assms(1-5)])
  have returned: "c = ctx' \<and> result = Some (parentBaseFee + max delta LegacyOneDec)"
    if "CalculateBaseFee ctx = Inr (c, result)" for c result
  proof -
    from that have "andThen ?inc (\<lambda>fee. Inr (ctx', Some fee)) = Inr (c, result)"
      by (simp only: st)
    then obtain fee where fee: "?inc = Inr fee" "c = ctx'" "result = Some fee"
      unfolding andThen_Inr_iff by blast
    from increaseBaseFee_Inr(1) [OF fee(1) congested] fee(2,3)
    show ?thesis by (simp add: delta_def)
  qed
  have returns: "CalculateBaseFee ctx = Inr (ctx', Some (parentBaseFee + max delta LegacyOneDec))"
    if d0: "BaseFeeChangeDenominator (params ctx) \<noteq> 0" and range: "\<bar>parentBaseFee\<bar> < 2 ^ 250"
  proof -
    have d: "0 < ?d" using d0 by (rule uint_uint32_pos)
    have "?inc = Inr (parentBaseFee + max delta LegacyOneDec)"
      unfolding delta_def using congested d range by (rule increaseBaseFee_value)
    then show ?thesis by (simp add: st)
  qed
  have one: "0 < LegacyOneDec"
    by (simp add: LegacyOneDec_def precisionReuse_def)
  then have rise: "parentBaseFee < parentBaseFee + max delta LegacyOneDec"
    by (simp add: less_max_iff_disj)
  have floor: "parentBaseFee + max delta LegacyOneDec = parentBaseFee + LegacyOneDec"
    if "delta \<le> LegacyOneDec"
    using that by simp
  from returned returns floor rise show ?thesis by blast
qed

text \<open>
  The witness: a delta above one unit (the keeper's unit test), a delta below one unit,
  where the increase is exactly one unit, and a delta of zero.
\<close>

theorem congestion_raises_base_fee_witness:
  "CalculateBaseFee (exampleContext 100 100 100) =
     Inr (exampleAfter 100 100 100 100, Some (984375000 * 10 ^ 18))
   \<and> CalculateBaseFee (exampleContext 20000000000 20000000002 0) =
     Inr (written (exampleContext 20000000000 20000000002 0) 10000000001, Some (875000001 * 10 ^ 18))
   \<and> CalculateBaseFee zeroFeeContext = Inr (written zeroFeeContext 100, Some LegacyOneDec)"
proof -
  note above = congestion_raises_base_fee [OF example_steady(1-3) example_wanted_100
    example_target(1) example_congested]
  have "CalculateBaseFee (exampleContext 100 100 100) =
     Inr (exampleAfter 100 100 100 100, Some (875000000 * 10 ^ 18 +
       max (bigQuo (bigQuo (875000000 * 10 ^ 18 * (uint (100 :: uint64) - 50)) 50)
         (uint (BaseFeeChangeDenominator (params (exampleContext 100 100 100))))) LegacyOneDec))"
    using above [THEN conjunct2, THEN conjunct1] conjI [OF example_steady(4) example_fee_bound]
    by (rule mp)
  then have c1: "CalculateBaseFee (exampleContext 100 100 100) =
     Inr (exampleAfter 100 100 100 100, Some (984375000 * 10 ^ 18))"
    by (simp only: example_steady(5) example_increase_value)
  note below = congestion_raises_base_fee [OF example_steady(1-3) written_wanted(5)
    written_target(5) example_floor_congested(1,2)]
  have "CalculateBaseFee (exampleContext 20000000000 20000000002 0) =
     Inr (written (exampleContext 20000000000 20000000002 0) 10000000001,
       Some (875000000 * 10 ^ 18 +
       max (bigQuo (bigQuo (875000000 * 10 ^ 18 * (uint (10000000001 :: uint64) - 10000000000))
              10000000000)
         (uint (BaseFeeChangeDenominator (params (exampleContext 20000000000 20000000002 0)))))
         LegacyOneDec))"
    using below [THEN conjunct2, THEN conjunct1] conjI [OF example_steady(4) example_fee_bound]
    by (rule mp)
  then have c2: "CalculateBaseFee (exampleContext 20000000000 20000000002 0) =
     Inr (written (exampleContext 20000000000 20000000002 0) 10000000001, Some (875000001 * 10 ^ 18))"
    by (simp only: example_steady(5) example_floor_value)
  note zero = congestion_raises_base_fee [OF written_steady(7-9) written_wanted(3)
    written_target(3) example_congested]
  have "CalculateBaseFee zeroFeeContext =
     Inr (written zeroFeeContext 100, Some (0 +
       max (bigQuo (bigQuo (0 * (uint (100 :: uint64) - 50)) 50)
         (uint (BaseFeeChangeDenominator (params zeroFeeContext)))) LegacyOneDec))"
    using zero [THEN conjunct2, THEN conjunct1] conjI [OF written_denominator(1) example_floor_congested(3)]
    by (rule mp)
  then have c3: "CalculateBaseFee zeroFeeContext = Inr (written zeroFeeContext 100, Some LegacyOneDec)"
    by (simp only: written_denominator(2) example_floor_value)
  from c1 c2 c3 show ?thesis by (intro conjI)
qed

subsection \<open>C4: slack\<close>

text \<open>
  Claim C4, as stated, fails: the call does not return for every slack steady-state
  invocation. With a stored base fee of \<open>2 ^ 314\<close> (a valid decimal), a target of 50 and
  25 gas wanted, every condition of the claim holds and the product of line 92 leaves the
  range of the decimal, so \<^verbatim>\<open>MulInt\<close> panics.
\<close>

theorem slack_overflow_counterexample:
  "\<not> NoBaseFee (params slackOverflowContext)
   \<and> sint (EnableHeight (params slackOverflowContext)) < sint (BlockHeight slackOverflowContext)
   \<and> BaseFee (params slackOverflowContext) = Some (2 ^ 314)
   \<and> bitLenAtMost maxDecBitLen (2 ^ 314)
   \<and> BaseFeeChangeDenominator (params slackOverflowContext) = 8
   \<and> CalculateBlockGasWanted slackOverflowContext
       = Inr (written slackOverflowContext 25, 25, None)
   \<and> Int_Quo (gasLimit slackOverflowContext)
        (uint (ElasticityMultiplier (params slackOverflowContext))) = Inr 50
   \<and> uint (25 :: uint64) < 50
   \<and> CalculateBaseFee slackOverflowContext = Inl IntOverflow"
proof -
  have "CalculateBaseFee slackOverflowContext = Inl IntOverflow"
    by (simp add: CalculateBaseFee_steady [OF written_steady(4-6) written_wanted(2) written_target(2)]
        written_params decreaseBaseFee_def LegacyDec_MulInt_def bitLenAtMost_def maxDecBitLen_def)
  then show ?thesis
    using written_steady(4-6) written_wanted(2) written_target(2)
    by (simp add: written_params bitLenAtMost_def maxDecBitLen_def)
qed

text \<open>
  Claim C4, amended. In the steady state with the parent base fee present, a block below
  its target gets the larger of the parent base fee minus the damped delta (no floor on
  the delta) and the minimum gas price: every result the call returns is that value, and
  the call does return it when the change denominator is not zero and the parent base fee
  is within range (the scaled integer of magnitude below \<open>2 ^ 250\<close>). The value is never
  below the minimum gas price.
\<close>

theorem slack_lowers_base_fee:
  assumes "\<not> NoBaseFee (params ctx)"
    and "sint (EnableHeight (params ctx)) < sint (BlockHeight ctx)"
    and "BaseFee (params ctx) = Some parentBaseFee"
    and "CalculateBlockGasWanted ctx = Inr (ctx', parentGasUsed, None)"
    and "Int_Quo (gasLimit ctx) (uint (ElasticityMultiplier (params ctx))) = Inr parentGasTarget"
    and slack: "uint parentGasUsed < parentGasTarget"
  defines "delta \<equiv>
    bigQuo (bigQuo (parentBaseFee * (parentGasTarget - uint parentGasUsed)) parentGasTarget)
      (uint (BaseFeeChangeDenominator (params ctx)))"
  shows "(\<forall>c result. CalculateBaseFee ctx = Inr (c, result) \<longrightarrow>
            c = ctx' \<and> result = Some (max (parentBaseFee - delta) (MinGasPrice (params ctx))))
       \<and> (BaseFeeChangeDenominator (params ctx) \<noteq> 0 \<and> \<bar>parentBaseFee\<bar> < 2 ^ 250 \<longrightarrow>
            CalculateBaseFee ctx =
              Inr (ctx', Some (max (parentBaseFee - delta) (MinGasPrice (params ctx)))))
       \<and> MinGasPrice (params ctx) \<le> max (parentBaseFee - delta) (MinGasPrice (params ctx))"
proof -
  let ?d = "uint (BaseFeeChangeDenominator (params ctx))"
  let ?dec = "decreaseBaseFee parentBaseFee parentGasUsed (word_of_int parentGasTarget)
      parentGasTarget ?d (MinGasPrice (params ctx))"
  note t = parentGasTarget_quo [OF assms(5)]
  have tpos: "0 < parentGasTarget" using slack uint_ge_0 [of parentGasUsed] by linarith
  have st: "CalculateBaseFee ctx = andThen ?dec (\<lambda>fee. Inr (ctx', Some fee))"
    using slack tpos by (simp add: CalculateBaseFee_steady [OF assms(1-5)])
  have returned: "c = ctx' \<and> result = Some (max (parentBaseFee - delta) (MinGasPrice (params ctx)))"
    if "CalculateBaseFee ctx = Inr (c, result)" for c result
  proof -
    from that have "andThen ?dec (\<lambda>fee. Inr (ctx', Some fee)) = Inr (c, result)"
      by (simp only: st)
    then obtain fee where fee: "?dec = Inr fee" "c = ctx'" "result = Some fee"
      unfolding andThen_Inr_iff by blast
    from decreaseBaseFee_Inr [OF fee(1) slack t(4)] fee(2,3)
    show ?thesis by (simp add: delta_def)
  qed
  have returns: "CalculateBaseFee ctx =
      Inr (ctx', Some (max (parentBaseFee - delta) (MinGasPrice (params ctx))))"
    if d0: "BaseFeeChangeDenominator (params ctx) \<noteq> 0" and range: "\<bar>parentBaseFee\<bar> < 2 ^ 250"
  proof -
    have d: "0 < ?d" using d0 by (rule uint_uint32_pos)
    have "?dec = Inr (max (parentBaseFee - delta) (MinGasPrice (params ctx)))"
      unfolding delta_def using slack t(4) d range by (rule decreaseBaseFee_value)
    then show ?thesis by (simp add: st)
  qed
  have "MinGasPrice (params ctx) \<le> max (parentBaseFee - delta) (MinGasPrice (params ctx))"
    by simp
  with returned returns show ?thesis by blast
qed

text \<open>
  The witness: the two unit tests of the keeper, with a minimum gas price of zero and with
  one above the lowered fee, where the result is the minimum gas price.
\<close>

theorem slack_lowers_base_fee_witness:
  "CalculateBaseFee (exampleContext 100 25 25) =
     Inr (exampleAfter 100 25 25 25, Some (820312500 * 10 ^ 18))
   \<and> CalculateBaseFee highMinPriceContext =
     Inr (written highMinPriceContext 25, Some (1500000000 * 10 ^ 18))"
proof -
  note free = slack_lowers_base_fee [OF example_steady(1-3) example_wanted_25
    example_target(1) example_slack]
  have "CalculateBaseFee (exampleContext 100 25 25) =
     Inr (exampleAfter 100 25 25 25, Some (max (875000000 * 10 ^ 18 -
       bigQuo (bigQuo (875000000 * 10 ^ 18 * (50 - uint (25 :: uint64))) 50)
         (uint (BaseFeeChangeDenominator (params (exampleContext 100 25 25)))))
       (MinGasPrice (params (exampleContext 100 25 25)))))"
    using free [THEN conjunct2, THEN conjunct1] conjI [OF example_steady(4) example_fee_bound]
    by (rule mp)
  then have c1: "CalculateBaseFee (exampleContext 100 25 25) =
     Inr (exampleAfter 100 25 25 25, Some (820312500 * 10 ^ 18))"
    by (simp only: example_steady(5,6) example_decrease_value)
  note floored = slack_lowers_base_fee [OF written_steady(10-12) written_wanted(4)
    written_target(4) example_slack]
  have "CalculateBaseFee highMinPriceContext =
     Inr (written highMinPriceContext 25, Some (max (875000000 * 10 ^ 18 -
       bigQuo (bigQuo (875000000 * 10 ^ 18 * (50 - uint (25 :: uint64))) 50)
         (uint (BaseFeeChangeDenominator (params highMinPriceContext))))
       (MinGasPrice (params highMinPriceContext))))"
    using floored [THEN conjunct2, THEN conjunct1] conjI [OF written_denominator(3) example_fee_bound]
    by (rule mp)
  then have c2: "CalculateBaseFee highMinPriceContext =
     Inr (written highMinPriceContext 25, Some (1500000000 * 10 ^ 18))"
    by (simp only: written_denominator(4) written_params(5) example_price_floor_value)
  from c1 c2 show ?thesis by (intro conjI)
qed

subsection \<open>C5: equilibrium\<close>

text \<open>
  Claim C5. In the steady state (fee market on, height above \<^verbatim>\<open>EnableHeight\<close>, parent
  base fee present), when the reconciled gas wanted equals the parent gas target, the
  result is the parent base fee itself. No condition is put on the minimum gas price or on
  the change denominator.
\<close>

theorem equilibrium_keeps_base_fee:
  assumes "\<not> NoBaseFee (params ctx)"
    and "sint (EnableHeight (params ctx)) < sint (BlockHeight ctx)"
    and "BaseFee (params ctx) = Some parentBaseFee"
    and "CalculateBlockGasWanted ctx = Inr (ctx', gasWanted, None)"
    and "Int_Quo (gasLimit ctx) (uint (ElasticityMultiplier (params ctx))) = Inr parentGasTarget"
    and "uint gasWanted = parentGasTarget"
  shows "CalculateBaseFee ctx = Inr (ctx', Some parentBaseFee)"
  using assms(6) by (simp add: CalculateBaseFee_steady [OF assms(1-5)])

theorem equilibrium_keeps_base_fee_witness:
  "CalculateBaseFee (exampleContext 100 50 50) = Inr (exampleAfter 100 50 50 50, Some (875000000 * 10 ^ 18))"
proof -
  have eq: "uint (50 :: uint64) = 50" by simp
  show ?thesis
    using equilibrium_keeps_base_fee [OF example_steady(1-3) example_wanted_50 example_target(1) eq]
    by simp
qed

subsection \<open>C6: monotone response to congestion\<close>

text \<open>
  Claim C6. Two congested steady-state invocations with the same parameters, the same gas
  limit and the same parent base fee: when the first one's excess over the target is
  strictly larger, its result is at least the second one's. This holds for any two
  results the calls return, and both calls do return when the change denominator is not
  zero and the parent base fee is within range.
\<close>

theorem congestion_response_monotone:
  assumes same: "params ctx2 = params ctx1" "gasLimit ctx2 = gasLimit ctx1"
    and on: "\<not> NoBaseFee (params ctx1)"
    and height1: "sint (EnableHeight (params ctx1)) < sint (BlockHeight ctx1)"
    and height2: "sint (EnableHeight (params ctx1)) < sint (BlockHeight ctx2)"
    and fee: "BaseFee (params ctx1) = Some parentBaseFee"
    and wanted1: "CalculateBlockGasWanted ctx1 = Inr (ctx1', gasWanted1, None)"
    and wanted2: "CalculateBlockGasWanted ctx2 = Inr (ctx2', gasWanted2, None)"
    and target: "Int_Quo (gasLimit ctx1) (uint (ElasticityMultiplier (params ctx1))) = Inr parentGasTarget"
    and congested: "0 < parentGasTarget" "parentGasTarget < uint gasWanted2"
    and larger: "uint gasWanted2 - parentGasTarget < uint gasWanted1 - parentGasTarget"
  shows "(\<forall>c1 c2 fee1 fee2.
            CalculateBaseFee ctx1 = Inr (c1, Some fee1) \<and> CalculateBaseFee ctx2 = Inr (c2, Some fee2)
              \<longrightarrow> fee2 \<le> fee1)
       \<and> (BaseFeeChangeDenominator (params ctx1) \<noteq> 0 \<and> \<bar>parentBaseFee\<bar> < 2 ^ 250
            \<longrightarrow> (\<exists>fee1 fee2. CalculateBaseFee ctx1 = Inr (ctx1', Some fee1)
                  \<and> CalculateBaseFee ctx2 = Inr (ctx2', Some fee2) \<and> fee2 \<le> fee1))"
proof -
  let ?d = "uint (BaseFeeChangeDenominator (params ctx1))"
  let ?t = parentGasTarget
  let ?inc = "\<lambda>g. increaseBaseFee parentBaseFee g (word_of_int ?t) ?t ?d"
  let ?val = "\<lambda>g. parentBaseFee + max (bigQuo (bigQuo (parentBaseFee * (uint g - ?t)) ?t) ?d) LegacyOneDec"
  have congested1: "?t < uint gasWanted1" using congested larger by linarith
  have s1: "CalculateBaseFee ctx1 = andThen (?inc gasWanted1) (\<lambda>fee. Inr (ctx1', Some fee))"
    using congested congested1
    by (simp add: CalculateBaseFee_steady [OF on height1 fee wanted1 target])
  have on2: "\<not> NoBaseFee (params ctx2)" using on same by simp
  have h2: "sint (EnableHeight (params ctx2)) < sint (BlockHeight ctx2)" using height2 same by simp
  have fee2: "BaseFee (params ctx2) = Some parentBaseFee" using fee same by simp
  have target2: "Int_Quo (gasLimit ctx2) (uint (ElasticityMultiplier (params ctx2))) = Inr ?t"
    using target same by simp
  have s2: "CalculateBaseFee ctx2 = andThen (?inc gasWanted2) (\<lambda>fee. Inr (ctx2', Some fee))"
    using congested same
    by (simp add: CalculateBaseFee_steady [OF on2 h2 fee2 wanted2 target2])
  have k: "0 \<le> uint gasWanted2 - ?t" "uint gasWanted2 - ?t \<le> uint gasWanted1 - ?t"
    using congested larger by simp_all
  have mono: "?val gasWanted2 \<le> ?val gasWanted1" if "0 < ?d"
    using congested(1) that k by (rule increase_mono)
  have first: "fee2 \<le> fee1"
    if r: "CalculateBaseFee ctx1 = Inr (c1, Some fee1)" "CalculateBaseFee ctx2 = Inr (c2, Some fee2)"
    for c1 c2 fee1 fee2
  proof -
    from r(1) s1 have i1: "?inc gasWanted1 = Inr fee1"
      by (cases "?inc gasWanted1") (simp_all add: andThen_def)
    from r(2) s2 have i2: "?inc gasWanted2 = Inr fee2"
      by (cases "?inc gasWanted2") (simp_all add: andThen_def)
    note v1 = increaseBaseFee_Inr [OF i1 congested(1) congested1]
    note v2 = increaseBaseFee_Inr [OF i2 congested]
    have "0 < ?d" using v1(2) uint_ge_0 [of "BaseFeeChangeDenominator (params ctx1)"] by linarith
    then show ?thesis using mono v1(1) v2(1) by simp
  qed
  have second: "\<exists>fee1 fee2. CalculateBaseFee ctx1 = Inr (ctx1', Some fee1)
                  \<and> CalculateBaseFee ctx2 = Inr (ctx2', Some fee2) \<and> fee2 \<le> fee1"
    if d0: "BaseFeeChangeDenominator (params ctx1) \<noteq> 0" and range: "\<bar>parentBaseFee\<bar> < 2 ^ 250"
  proof -
    have d: "0 < ?d" using d0 by (rule uint_uint32_pos)
    have i1: "?inc gasWanted1 = Inr (?val gasWanted1)"
      using congested(1) congested1 d range by (rule increaseBaseFee_value)
    have i2: "?inc gasWanted2 = Inr (?val gasWanted2)"
      using congested d range by (rule increaseBaseFee_value)
    show ?thesis using s1 s2 i1 i2 mono [OF d] by simp
  qed
  from first second show ?thesis by blast
qed

theorem congestion_response_monotone_witness:
  "\<exists>fee1 fee2.
      CalculateBaseFee (exampleContext 100 100 100) = Inr (exampleAfter 100 100 100 100, Some fee1)
    \<and> CalculateBaseFee (exampleContext 100 75 75) = Inr (exampleAfter 100 75 75 75, Some fee2)
    \<and> fee2 \<le> fee1"
  using congestion_response_monotone [OF example_same(1,2) example_steady(1,2) example_same(3)
    example_steady(3) example_wanted_100 example_wanted_75 example_target(1) example_congested(1)
    example_larger] example_steady(4) [of 100 100 100] example_fee_bound
  by blast

subsection \<open>C7: overflow of the 64-bit conversions\<close>

text \<open>
  Claim C7, as stated, fails. The nil meter is tested first (line 104): with no block gas
  meter and a transient gas wanted of the maximum \<^verbatim>\<open>uint64\<close>, the error is the one of the
  missing meter, not an arithmetic overflow.
\<close>

theorem overflow_with_missing_meter_counterexample:
  "2 ^ 63 \<le> uint (TransientGasWanted noMeterContext)
   \<and> CalculateBlockGasWanted noMeterContext = Inr (noMeterContext, 0, Some BlockGasMeterNil)
   \<and> \<not> isArithmeticOverflow BlockGasMeterNil"
  by (simp add: CalculateBlockGasWanted_nil noMeterContext_def example_defs)

text \<open>
  Claim C7, amended. With a block gas meter attached, when the transient gas wanted or the
  capped consumed gas is \<open>2 ^ 63\<close> or more, the reconciliation returns an overflow error
  with the value 0 and an untouched context, never a wrapped number.
\<close>

theorem overflow_is_reported:
  assumes "BlockGasMeter ctx = Some meter"
    and "2 ^ 63 \<le> uint (TransientGasWanted ctx) \<or> 2 ^ 63 \<le> uint (GasConsumedToLimit meter)"
  shows "\<exists>err. CalculateBlockGasWanted ctx = Inr (ctx, 0, Some err) \<and> isArithmeticOverflow err"
  using CalculateBlockGasWanted_overflow [OF assms] by simp

theorem overflow_is_reported_witness:
  "\<exists>err. CalculateBlockGasWanted (exampleContext 100 18446744073709551615 1000000) =
           Inr (exampleContext 100 18446744073709551615 1000000, 0, Some err) \<and> isArithmeticOverflow err"
proof -
  have big: "2 ^ 63 \<le> uint (TransientGasWanted (exampleContext 100 18446744073709551615 1000000))
     \<or> 2 ^ 63 \<le> uint (GasConsumedToLimit \<lparr>meterLimit = 1000000000, meterConsumed = 1000000\<rparr>)"
    by (simp add: example_meter)
  show ?thesis
    using overflow_is_reported [OF example_meter(1) big] .
qed

subsection \<open>C8: the disabled fee market\<close>

text \<open>
  Claim C8. When \<^verbatim>\<open>NoBaseFee\<close> is set or the block height is below \<^verbatim>\<open>EnableHeight\<close>,
  \<^verbatim>\<open>CalculateBaseFee\<close> returns the nil decimal and leaves the context as it was, whatever
  the gas values, the consensus maximum gas, the minimum gas price and the divisors are.
\<close>

theorem disabled_returns_absent:
  assumes "NoBaseFee (params ctx) \<or> sint (BlockHeight ctx) < sint (EnableHeight (params ctx))"
  shows "CalculateBaseFee ctx = Inr (ctx, None)"
  using assms by (auto simp add: CalculateBaseFee_def IsBaseFeeEnabled_def)

theorem disabled_returns_absent_witness:
  "CalculateBaseFee ((exampleContext 100 100 100)\<lparr>params := exampleParams\<lparr>NoBaseFee := True\<rparr>\<rparr>)
     = Inr ((exampleContext 100 100 100)\<lparr>params := exampleParams\<lparr>NoBaseFee := True\<rparr>\<rparr>, None)
   \<and> CalculateBaseFee ((exampleContext 100 100 100)\<lparr>params := exampleParams\<lparr>EnableHeight := 5\<rparr>\<rparr>)
     = Inr ((exampleContext 100 100 100)\<lparr>params := exampleParams\<lparr>EnableHeight := 5\<rparr>\<rparr>, None)"
proof -
  let ?off = "(exampleContext 100 100 100)\<lparr>params := exampleParams\<lparr>NoBaseFee := True\<rparr>\<rparr>"
  let ?early = "(exampleContext 100 100 100)\<lparr>params := exampleParams\<lparr>EnableHeight := 5\<rparr>\<rparr>"
  have off: "NoBaseFee (params ?off) \<or> sint (BlockHeight ?off) < sint (EnableHeight (params ?off))"
    by (simp add: example_defs)
  have early: "NoBaseFee (params ?early) \<or> sint (BlockHeight ?early) < sint (EnableHeight (params ?early))"
    by (simp add: example_defs)
  show ?thesis
    using disabled_returns_absent [OF off] disabled_returns_absent [OF early] by simp
qed

subsection \<open>C9: degenerate paths and panics\<close>

text \<open>
  Claim C9, as stated, fails: \<^verbatim>\<open>CalculateBaseFee\<close> does raise. With well-formed
  parameters and a stored base fee of \<open>2 ^ 314\<close> (a valid decimal), the product of line 79
  exceeds 315 bits and \<^verbatim>\<open>MulInt\<close> panics.
\<close>

theorem base_fee_overflow_counterexample:
  "BaseFee (params overflowFeeContext) = Some (2 ^ 314)
   \<and> bitLenAtMost maxDecBitLen (2 ^ 314)
   \<and> \<not> NoBaseFee (params overflowFeeContext)
   \<and> sint (EnableHeight (params overflowFeeContext)) < sint (BlockHeight overflowFeeContext)
   \<and> ElasticityMultiplier (params overflowFeeContext) = 2
   \<and> BaseFeeChangeDenominator (params overflowFeeContext) = 8
   \<and> MinGasMultiplier (params overflowFeeContext) = 5 * 10 ^ 17
   \<and> CalculateBaseFee overflowFeeContext = Inl IntOverflow"
  by (simp add: overflowFeeContext_def example_defs fee_defs wanted_defs andThen_def)

text \<open>
  Claim C9, amended. An absent stored base fee yields the nil decimal at every height; in
  the steady state an error of the reconciliation yields the nil decimal; with a non-zero
  elasticity multiplier the parent gas target exists and is always a \<^verbatim>\<open>uint64\<close>, so the
  branch of line 58 is never taken; and the call returns without a panic whenever both
  divisors are non-zero, the multiplier is between 0 and 1 and the stored base fee is
  within range.
\<close>

theorem degenerate_paths_fold_to_absent:
  shows "(BaseFee (params ctx) = None \<longrightarrow> CalculateBaseFee ctx = Inr (ctx, None))
       \<and> (\<not> NoBaseFee (params ctx) \<and> sint (EnableHeight (params ctx)) < sint (BlockHeight ctx)
            \<and> CalculateBlockGasWanted ctx = Inr (ctx', gasWanted, Some err)
          \<longrightarrow> CalculateBaseFee ctx = Inr (ctx', None))
       \<and> (ElasticityMultiplier (params ctx) \<noteq> 0
          \<longrightarrow> (\<exists>target. Int_Quo (gasLimit ctx) (uint (ElasticityMultiplier (params ctx))) = Inr target
                  \<and> IsUint64 target))
       \<and> (ElasticityMultiplier (params ctx) \<noteq> 0 \<and> BaseFeeChangeDenominator (params ctx) \<noteq> 0
            \<and> 0 \<le> MinGasMultiplier (params ctx) \<and> MinGasMultiplier (params ctx) \<le> precisionReuse
            \<and> (\<forall>fee. BaseFee (params ctx) = Some fee \<longrightarrow> \<bar>fee\<bar> < 2 ^ 250)
          \<longrightarrow> (\<exists>ctx'' result. CalculateBaseFee ctx = Inr (ctx'', result)))"
proof -
  have "\<exists>target. Int_Quo (gasLimit ctx) (uint (ElasticityMultiplier (params ctx))) = Inr target
                  \<and> IsUint64 target"
    if e: "ElasticityMultiplier (params ctx) \<noteq> 0"
    using parentGasTarget_exists [OF e] parentGasTarget_quo(5) [OF parentGasTarget_exists [OF e]]
    by blast
  then show ?thesis
    using CalculateBaseFee_absent_parent [of ctx] CalculateBaseFee_wanted_error [of ctx ctx' gasWanted err]
      CalculateBaseFee_total [of ctx]
    by blast
qed

theorem degenerate_paths_fold_to_absent_witness:
  "CalculateBaseFee absentFeeContext = Inr (absentFeeContext, None)
   \<and> CalculateBaseFee noMeterContext = Inr (noMeterContext, None)
   \<and> CalculateBaseFee (exampleContext 100 18446744073709551615 1000000)
       = Inr (exampleContext 100 18446744073709551615 1000000, None)
   \<and> (\<exists>target. Int_Quo (gasLimit (exampleContext 100 100 100))
          (uint (ElasticityMultiplier (params (exampleContext 100 100 100)))) = Inr target
        \<and> IsUint64 target)
   \<and> (\<exists>ctx'' result. CalculateBaseFee (exampleContext 100 100 100) = Inr (ctx'', result))"
proof -
  let ?big = "exampleContext 100 18446744073709551615 1000000"
  have absent: "BaseFee (params absentFeeContext) = None"
    by (simp add: absentFeeContext_def example_defs)
  have steadyNoMeter: "\<not> NoBaseFee (params noMeterContext)"
    "sint (EnableHeight (params noMeterContext)) < sint (BlockHeight noMeterContext)"
    by (simp_all add: noMeterContext_def example_defs)
  have nil: "CalculateBlockGasWanted noMeterContext = Inr (noMeterContext, 0, Some BlockGasMeterNil)"
    by (simp add: CalculateBlockGasWanted_nil noMeterContext_def)
  have big: "CalculateBlockGasWanted ?big = Inr (?big, 0, Some (GasWantedOverflow 18446744073709551615))"
    using CalculateBlockGasWanted_overflow [OF example_meter(1), of 100 18446744073709551615 1000000]
    by (simp add: example_meter)
  have well: "ElasticityMultiplier (params (exampleContext 100 100 100)) \<noteq> 0"
    "0 \<le> MinGasMultiplier (params (exampleContext 100 100 100))"
    "MinGasMultiplier (params (exampleContext 100 100 100)) \<le> precisionReuse"
    "\<forall>fee. BaseFee (params (exampleContext 100 100 100)) = Some fee \<longrightarrow> \<bar>fee\<bar> < 2 ^ 250"
    by (simp_all add: example_defs precisionReuse_def)
  note paths = degenerate_paths_fold_to_absent
  have c1: "CalculateBaseFee absentFeeContext = Inr (absentFeeContext, None)"
    using paths [of absentFeeContext, THEN conjunct1] absent by (rule mp)
  have c2: "CalculateBaseFee noMeterContext = Inr (noMeterContext, None)"
    using paths [of noMeterContext noMeterContext 0 BlockGasMeterNil, THEN conjunct2, THEN conjunct1]
      conjI [OF steadyNoMeter(1) conjI [OF steadyNoMeter(2) nil]]
    by (rule mp)
  have c3: "CalculateBaseFee ?big = Inr (?big, None)"
    using paths [of ?big ?big 0 "GasWantedOverflow 18446744073709551615", THEN conjunct2, THEN conjunct1]
      conjI [OF example_steady(1) conjI [OF example_steady(2) big]]
    by (rule mp)
  have c4: "\<exists>target. Int_Quo (gasLimit (exampleContext 100 100 100))
          (uint (ElasticityMultiplier (params (exampleContext 100 100 100)))) = Inr target
        \<and> IsUint64 target"
    using paths [of "exampleContext 100 100 100", THEN conjunct2, THEN conjunct2, THEN conjunct1]
      well(1)
    by (rule mp)
  have c5: "\<exists>ctx'' result. CalculateBaseFee (exampleContext 100 100 100) = Inr (ctx'', result)"
    using paths [of "exampleContext 100 100 100", THEN conjunct2, THEN conjunct2, THEN conjunct2]
      conjI [OF well(1) conjI [OF example_steady(4) conjI [OF well(2) conjI [OF well(3) well(4)]]]]
    by (rule mp)
  from c1 c2 c3 c4 c5 show ?thesis by (intro conjI)
qed

subsection \<open>C10: no write on error\<close>

text \<open>
  Claim C10. Whenever the reconciliation returns an error, the returned value is 0 and the
  context, with the stored block gas wanted, is unchanged; the store is written (and the
  event emitted) exactly when there is no error. The error arises exactly when the meter
  is nil or one of the two values is \<open>2 ^ 63\<close> or more.
\<close>

theorem error_leaves_state_unwritten:
  assumes "CalculateBlockGasWanted ctx = Inr (ctx', gasWanted, err)"
  shows "(err \<noteq> None \<longrightarrow> gasWanted = 0 \<and> ctx' = ctx \<and> BlockGasWanted ctx' = BlockGasWanted ctx)
       \<and> (err = None \<longrightarrow>
            ctx' = EmitEvent (SetBlockGasWanted ctx gasWanted) (BlockGasEvent (BlockHeight ctx) gasWanted))
       \<and> (err \<noteq> None) =
           (case BlockGasMeter ctx of
              None \<Rightarrow> True
            | Some meter \<Rightarrow> 2 ^ 63 \<le> uint (TransientGasWanted ctx)
                            \<or> 2 ^ 63 \<le> uint (GasConsumedToLimit meter))"
proof (cases "BlockGasMeter ctx")
  case None
  with assms show ?thesis by (auto simp add: CalculateBlockGasWanted_nil)
next
  case (Some meter)
  show ?thesis
  proof (cases "2 ^ 63 \<le> uint (TransientGasWanted ctx) \<or> 2 ^ 63 \<le> uint (GasConsumedToLimit meter)")
    case True
    from assms CalculateBlockGasWanted_overflow [OF Some True] Some True
    show ?thesis by auto
  next
    case False
    then have ok: "IsInt64 (uint (TransientGasWanted ctx))" "IsInt64 (uint (GasConsumedToLimit meter))"
      by (simp_all add: IsInt64_uint)
    from assms have "err = None \<and> ctx' = EmitEvent (SetBlockGasWanted ctx gasWanted)
        (BlockGasEvent (BlockHeight ctx) gasWanted)"
      unfolding CalculateBlockGasWanted_def Let_def
      using Some ok by (auto simp add: andThen_def split: sum.splits)
    with Some False show ?thesis by simp
  qed
qed

theorem error_leaves_state_unwritten_witness:
  "CalculateBlockGasWanted noMeterContext = Inr (noMeterContext, 0, Some BlockGasMeterNil)
   \<and> BlockGasWanted noMeterContext = 0"
proof -
  have run: "CalculateBlockGasWanted noMeterContext = Inr (noMeterContext, 0, Some BlockGasMeterNil)"
    by (simp add: CalculateBlockGasWanted_nil noMeterContext_def)
  show ?thesis
    using error_leaves_state_unwritten [OF run] run by (simp add: noMeterContext_def example_defs)
qed

end
